theory Spec2Isabelle
  imports Main "HOL-Library.AList"
begin

section \<open>Values and containers of the TypeScript code\<close>

text \<open>
  Protocol payloads (capabilities, debug configurations, request arguments) are JavaScript
  objects with string keys. An object is an association list in insertion order with
  distinct keys; a field that is absent is a key that is absent.
\<close>

datatype jvalue = JUndefined | JBool bool | JNum int | JStr string

type_synonym jobject = "(string \<times> jvalue) list"

text \<open>
  \<^verbatim>\<open>Object.assign(target, source)\<close>: every own field of \<open>source\<close>, in order, is written
  into \<open>target\<close>: an existing key keeps its place and takes the new value, a new key is
  appended. The target object itself is mutated and returned.
\<close>

definition Object_assign :: "jobject \<Rightarrow> jobject \<Rightarrow> jobject" where
  "Object_assign target source = fold (\<lambda>(k, v) t. AList.update k v t) source target"

text \<open>
  A JavaScript \<^verbatim>\<open>Map\<close> is an association list in insertion order: \<^verbatim>\<open>get\<close> is
  \<^const>\<open>map_of\<close>, \<^verbatim>\<open>set\<close> replaces the value of a known key in place and appends an
  unknown one, \<^verbatim>\<open>delete\<close> removes the key, and \<^verbatim>\<open>values().next().value\<close> (or
  \<^verbatim>\<open>keys().next().value\<close>) is the first entry, \<^verbatim>\<open>undefined\<close> on an empty map.
\<close>

abbreviation Map_get :: "('k \<times> 'v) list \<Rightarrow> 'k \<Rightarrow> 'v option" where
  "Map_get m k \<equiv> map_of m k"

abbreviation Map_set :: "('k \<times> 'v) list \<Rightarrow> 'k \<Rightarrow> 'v \<Rightarrow> ('k \<times> 'v) list" where
  "Map_set m k v \<equiv> AList.update k v m"

abbreviation Map_delete :: "('k \<times> 'v) list \<Rightarrow> 'k \<Rightarrow> ('k \<times> 'v) list" where
  "Map_delete m k \<equiv> AList.delete k m"

definition Map_first_value :: "('k \<times> 'v) list \<Rightarrow> 'v option" where
  "Map_first_value m = (case m of [] \<Rightarrow> None | (k, v) # rest \<Rightarrow> Some v)"

definition Map_first_key :: "('k \<times> 'v) list \<Rightarrow> 'k option" where
  "Map_first_key m = (case m of [] \<Rightarrow> None | (k, v) # rest \<Rightarrow> Some k)"

text \<open>
  A request that fails (a response whose success flag is false, a rejected promise) is a
  \<open>failure\<close> carrying the optional \<^verbatim>\<open>message\<close> of the response. An operation of the
  manager is rejected with an \<open>error\<close>: a failed request or the exception thrown for an
  unsupported request kind. An operation that can fail returns a sum with \<open>Inl\<close> for the
  failure.
\<close>

datatype failure = Failure "string option"

datatype error =
    RequestFailed failure
  | UnsupportedRequest "jvalue option"

text \<open>What awaiting \<^verbatim>\<open>connection.sendRequest\<close> yields: a failure or a response with an
  optional body.\<close>

type_synonym response = "failure + jobject option"

section \<open>Threads\<close>

datatype DebugState = Inactive | Running | Stopped

record Thread_raw =
  thread_id :: int
  thread_name :: string

record StoppedDetails =
  reason :: string
  description :: "string option"
  threadId :: "int option"
  preserveFocusHint :: "bool option"
  allThreadsStopped :: "bool option"

text \<open>
  Modelled from the spec: the class \<^verbatim>\<open>DebugThread\<close> (\<^verbatim>\<open>model/debug-thread.ts\<close>) is
  imported by \<^verbatim>\<open>debug-session.ts\<close> and is not among the sources. The spec gives a thread
  its raw protocol descriptor and optional stopped details; the session reads and writes
  these two fields only.
\<close>

record DebugThread =
  raw :: Thread_raw
  stoppedDetails :: "StoppedDetails option"

text \<open>
  Modelled from the spec: the getter \<^verbatim>\<open>state\<close> of the missing class \<^verbatim>\<open>DebugThread\<close>. The
  spec derives the state of a thread, Running or Stopped, from its stopped details.
\<close>

definition thread_state :: "DebugThread \<Rightarrow> DebugState" where
  "thread_state t = (if stoppedDetails t \<noteq> None then Stopped else Running)"

text \<open>
  Modelled from the spec: the method \<^verbatim>\<open>update\<close> of the missing class \<^verbatim>\<open>DebugThread\<close>,
  called with a raw descriptor and stopped details. It assigns the given fields, as the
  sibling \<^verbatim>\<open>DebugStackFrame.update\<close> does with \<^verbatim>\<open>Object.assign(this, data)\<close>.
\<close>

definition thread_update :: "Thread_raw \<Rightarrow> StoppedDetails option \<Rightarrow> DebugThread \<Rightarrow> DebugThread" where
  "thread_update r sd t = t\<lparr>raw := r, stoppedDetails := sd\<rparr>"

text \<open>
  Modelled from the spec: the method \<^verbatim>\<open>clear\<close> of the missing class \<^verbatim>\<open>DebugThread\<close>. To
  clear a thread is to drop its stopped details.
\<close>

definition thread_clear :: "DebugThread \<Rightarrow> DebugThread" where
  "thread_clear t = thread_update (raw t) None t"

section \<open>The debug session\<close>

text \<open>
  Thread objects are mutable and shared between the thread map and the current-thread
  slot, so they live in a store: \<open>heap\<close> maps a reference to the object, \<open>nextRef\<close> is
  the next reference \<^verbatim>\<open>new DebugThread\<close> hands out. The field \<open>threads\<close> is the map
  \<^verbatim>\<open>_threads\<close> and \<open>currentThread\<close> the slot \<^verbatim>\<open>_currentThread\<close>.
  \<open>resolveThreadsCalls\<close> records the arguments of the calls of the debounced
  \<^verbatim>\<open>resolveThreads\<close>, oldest first.
\<close>

type_synonym ref = nat

text \<open>
  The constructor keeps the configuration object the caller passes
  (\<^verbatim>\<open>public readonly configuration\<close>) and never copies it: the field \<open>configuration\<close>
  is the reference to that object. No method of the session reads or writes the object;
  the objects are in a store of the manager, which does both.
\<close>

type_synonym cref = nat

record DebugSession =
  sessionId :: string
  configuration :: cref
  capabilities :: jobject
  heap :: "ref \<Rightarrow> DebugThread"
  nextRef :: ref
  threads :: "(int \<times> ref) list"
  currentThread :: "ref option"
  resolveThreadsCalls :: "StoppedDetails option list"

text \<open>A cell of the store that holds no object yet; it is never read before
  \<^verbatim>\<open>new DebugThread\<close> and the update that follows have filled it.\<close>

definition no_thread :: DebugThread where
  "no_thread = \<lparr>raw = \<lparr>thread_id = 0, thread_name = []\<rparr>, stoppedDetails = None\<rparr>"

definition empty_heap :: "ref \<Rightarrow> DebugThread" where
  "empty_heap = (\<lambda>a. no_thread)"

text \<open>The field initialisers of the class: no capabilities, no threads, no current thread.\<close>

definition new_DebugSession :: "string \<Rightarrow> cref \<Rightarrow> DebugSession" where
  "new_DebugSession sid config =
     \<lparr>sessionId = sid, configuration = config, capabilities = [],
      heap = empty_heap, nextRef = 0, threads = [], currentThread = None,
      resolveThreadsCalls = []\<rparr>"

subsection \<open>Capabilities\<close>

text \<open>
  \<^verbatim>\<open>initialize\<close>, given what awaiting the request yields: a failure propagates and leaves
  the session as it is; a response assigns \<^verbatim>\<open>response.body || {}\<close> to the capabilities.
\<close>

definition initialize :: "response \<Rightarrow> DebugSession \<Rightarrow> response \<times> DebugSession" where
  "initialize resp s =
     (case resp of
        Inl e \<Rightarrow> (Inl e, s)
      | Inr body \<Rightarrow>
          (Inr body, s\<lparr>capabilities := (case body of Some b \<Rightarrow> b | None \<Rightarrow> [])\<rparr>))"

definition updateCapabilities :: "jobject \<Rightarrow> DebugSession \<Rightarrow> DebugSession" where
  "updateCapabilities caps s = s\<lparr>capabilities := Object_assign (capabilities s) caps\<rparr>"

subsection \<open>Current thread\<close>

text \<open>JavaScript truthiness of an optional number, boolean and string.\<close>

definition truthy_num :: "int option \<Rightarrow> bool" where
  "truthy_num n = (case n of Some i \<Rightarrow> i \<noteq> 0 | None \<Rightarrow> False)"

definition truthy_bool :: "bool option \<Rightarrow> bool" where
  "truthy_bool b = (case b of Some v \<Rightarrow> v | None \<Rightarrow> False)"

definition truthy_str :: "string option \<Rightarrow> bool" where
  "truthy_str x = (case x of Some v \<Rightarrow> v \<noteq> [] | None \<Rightarrow> False)"

text \<open>
  \<^verbatim>\<open>doSetCurrentThread\<close> stores the thread before its first suspension point; the
  listeners it disposes and attaches and the frames it resolves afterwards are no fields of
  the session.
\<close>

definition doSetCurrentThread :: "ref option \<Rightarrow> DebugSession \<Rightarrow> DebugSession" where
  "doSetCurrentThread thread s = s\<lparr>currentThread := thread\<rparr>"

definition setCurrentThread :: "ref option \<Rightarrow> DebugSession \<Rightarrow> DebugSession" where
  "setCurrentThread thread s =
     doSetCurrentThread
       (case thread of
          Some a \<Rightarrow> if thread_state (heap s a) = Stopped then Some a else None
        | None \<Rightarrow> None) s"

definition updateCurrentThread :: "StoppedDetails option \<Rightarrow> DebugSession \<Rightarrow> DebugSession" where
  "updateCurrentThread sd s =
     (let previous = (case currentThread s of
                        Some a \<Rightarrow> Some (thread_id (raw (heap s a)))
                      | None \<Rightarrow> None);
          wanted = (case sd of
                      Some d \<Rightarrow>
                        if \<not> truthy_bool (preserveFocusHint d) \<and> truthy_num (threadId d)
                        then threadId d else previous
                    | None \<Rightarrow> previous)
      in setCurrentThread
           (case wanted of
              Some i \<Rightarrow> (case Map_get (threads s) i of
                           Some a \<Rightarrow> Some a
                         | None \<Rightarrow> Map_first_value (threads s))
            | None \<Rightarrow> Map_first_value (threads s)) s)"

subsection \<open>Clearing threads\<close>

definition clear_at :: "ref \<Rightarrow> (ref \<Rightarrow> DebugThread) \<Rightarrow> (ref \<Rightarrow> DebugThread)" where
  "clear_at a h = h(a := thread_clear (h a))"

definition clearThreads :: "DebugSession \<Rightarrow> DebugSession" where
  "clearThreads s =
     updateCurrentThread None (s\<lparr>heap := fold clear_at (map snd (threads s)) (heap s)\<rparr>)"

definition clearThread :: "int \<Rightarrow> DebugSession \<Rightarrow> DebugSession" where
  "clearThread tid s =
     updateCurrentThread None
       (case Map_get (threads s) tid of
          Some a \<Rightarrow> s\<lparr>heap := clear_at a (heap s)\<rparr>
        | None \<Rightarrow> s)"

subsection \<open>Refreshing the thread map\<close>

text \<open>
  The loop of \<^verbatim>\<open>updateThreads\<close> over the reported threads. \<open>existing\<close> is the map before
  the refresh; the map under construction is the field \<open>threads\<close>. A thread whose id is
  known keeps its object; otherwise \<^verbatim>\<open>new DebugThread\<close> takes the next reference. The
  object is then updated with the raw thread, and with the stop details when they name
  this id (\<^verbatim>\<open>===\<close>, so also the id 0).
\<close>

fun updateThreads_loop ::
  "(int \<times> ref) list \<Rightarrow> StoppedDetails option \<Rightarrow> Thread_raw list \<Rightarrow> DebugSession \<Rightarrow> DebugSession"
where
  "updateThreads_loop existing sd [] s = s"
| "updateThreads_loop existing sd (r # rest) s =
     (let i = thread_id r;
          details = (case sd of
                       Some d \<Rightarrow> if threadId d = Some i then Some d else None
                     | None \<Rightarrow> None)
      in updateThreads_loop existing sd rest
           (case Map_get existing i of
              Some a \<Rightarrow>
                s\<lparr>threads := Map_set (threads s) i a,
                  heap := (heap s)(a := thread_update r details (heap s a))\<rparr>
            | None \<Rightarrow>
                s\<lparr>threads := Map_set (threads s) i (nextRef s),
                  heap := (heap s)(nextRef s := thread_update r details no_thread),
                  nextRef := Suc (nextRef s)\<rparr>))"

definition updateThreads :: "Thread_raw list \<Rightarrow> StoppedDetails option \<Rightarrow> DebugSession \<Rightarrow> DebugSession" where
  "updateThreads rs sd s =
     updateCurrentThread sd (updateThreads_loop (threads s) sd rs (s\<lparr>threads := []\<rparr>))"

subsection \<open>Event listeners\<close>

text \<open>
  \<^verbatim>\<open>resolveThreads\<close> is the function \<^verbatim>\<open>debounce(..., 100)\<close> of the package p-debounce
  returns. Calling it changes no field of the session: the call is recorded, and the body
  it wraps runs later, as the step \<open>ThreadsResponse\<close> below.
\<close>

definition resolveThreads :: "StoppedDetails option \<Rightarrow> DebugSession \<Rightarrow> DebugSession" where
  "resolveThreads sd s = s\<lparr>resolveThreadsCalls := resolveThreadsCalls s @ [sd]\<rparr>"

datatype session_event =
    ConfigurationDone
  | Continued "bool option" int
  | StoppedEvent StoppedDetails
  | ThreadEvent string int
  | CapabilitiesEvent jobject

fun on_event :: "session_event \<Rightarrow> DebugSession \<Rightarrow> DebugSession" where
  "on_event ConfigurationDone s = resolveThreads None s"
| "on_event (Continued allThreadsContinued tid) s =
     (if allThreadsContinued \<noteq> Some False then clearThreads s else clearThread tid s)"
| "on_event (StoppedEvent body) s = resolveThreads (Some body) s"
| "on_event (ThreadEvent why tid) s =
     (if why = ''started'' then resolveThreads None s
      else if why = ''exited'' then clearThread tid s
      else s)"
| "on_event (CapabilitiesEvent caps) s = updateCapabilities caps s"

text \<open>
  A step of the session is an event from the adapter, or the body of \<^verbatim>\<open>resolveThreads\<close>
  finishing: the \<^verbatim>\<open>threads\<close> request has failed (nothing is updated) or has answered with
  a list of threads, and \<^verbatim>\<open>updateThreads\<close> runs with the stop details of that call.
\<close>

datatype step =
    Event session_event
  | ThreadsResponse "failure + Thread_raw list" "StoppedDetails option"

fun do_step :: "step \<Rightarrow> DebugSession \<Rightarrow> DebugSession" where
  "do_step (Event e) s = on_event e s"
| "do_step (ThreadsResponse (Inl err) sd) s = s"
| "do_step (ThreadsResponse (Inr rs) sd) s = updateThreads rs sd s"

definition run_steps :: "step list \<Rightarrow> DebugSession \<Rightarrow> DebugSession" where
  "run_steps steps s = fold do_step steps s"

subsection \<open>Pausing and continuing all threads\<close>

definition getThreads :: "(DebugThread \<Rightarrow> bool) \<Rightarrow> DebugSession \<Rightarrow> ref list" where
  "getThreads flt s = filter (\<lambda>a. flt (heap s a)) (map snd (threads s))"

definition getThreadsForState :: "DebugState \<Rightarrow> DebugSession \<Rightarrow> ref list" where
  "getThreadsForState st s = getThreads (\<lambda>thread. thread_state thread = st) s"

text \<open>
  The body \<^verbatim>\<open>try { await thread.pause() } catch (e) { console.error(e) }\<close>: whatever the
  request does, the promise of the body is fulfilled; a failure is written to the console.
\<close>

definition swallow :: "failure + unit \<Rightarrow> (failure + unit) \<times> failure list" where
  "swallow outcome = (case outcome of Inl e \<Rightarrow> (Inr (), [e]) | Inr u \<Rightarrow> (Inr (), []))"

text \<open>\<^verbatim>\<open>Promise.all\<close> is rejected as soon as one of its promises is, and fulfilled otherwise.\<close>

fun Promise_all :: "(failure + unit) list \<Rightarrow> failure + unit" where
  "Promise_all [] = Inr ()"
| "Promise_all (Inl e # ps) = Inl e"
| "Promise_all (Inr u # ps) = Promise_all ps"

text \<open>
  The result of \<^verbatim>\<open>pauseAll\<close> or \<^verbatim>\<open>continueAll\<close>: the threads whose request was issued, in
  order, the errors written to the console, and the outcome of the returned promise.
\<close>

record batch_result =
  issued :: "ref list"
  logged :: "failure list"
  outcome :: "failure + unit"

text \<open>
  Modelled from the spec: \<^verbatim>\<open>thread.pause()\<close> and \<^verbatim>\<open>thread.continue()\<close> belong to the class
  \<^verbatim>\<open>DebugThread\<close>, which is not among the sources; each issues one request for its thread.
  What the adapter answers to the request of the thread at a reference is the parameter
  \<open>answer\<close>. Every request is issued before any answer is awaited.
\<close>

definition all_threads_in :: "DebugState \<Rightarrow> (ref \<Rightarrow> failure + unit) \<Rightarrow> DebugSession \<Rightarrow> batch_result" where
  "all_threads_in st answer s =
     (let targets = getThreadsForState st s;
          promises = map (\<lambda>a. swallow (answer a)) targets
      in \<lparr>issued = targets,
          logged = concat (map snd promises),
          outcome = Promise_all (map fst promises)\<rparr>)"

definition pauseAll :: "(ref \<Rightarrow> failure + unit) \<Rightarrow> DebugSession \<Rightarrow> batch_result" where
  "pauseAll answer s = all_threads_in Running answer s"

definition continueAll :: "(ref \<Rightarrow> failure + unit) \<Rightarrow> DebugSession \<Rightarrow> batch_result" where
  "continueAll answer s = all_threads_in Stopped answer s"

section \<open>The session manager\<close>

text \<open>
  Session objects are shared between the manager's map and the listeners that hold them,
  so sessions live in a store, \<open>sessionHeap\<close>. \<^verbatim>\<open>launch\<close> and \<^verbatim>\<open>attach\<close> mutate the
  configuration object of a session in place, and that object is the one the caller of
  \<^verbatim>\<open>create\<close> passed, which other sessions or the caller may hold as well: configuration
  objects live in a second store, \<open>configurations\<close>, and a session holds a reference
  into it. Everything the manager does to the outside is appended to \<open>trace\<close>:
  requests sent over the connection of a session (with the arguments as they are when
  the request is sent), calls of the debug service and of the notification service,
  disposal of a session, and the events of the manager's emitters.
\<close>

type_synonym sref = nat

datatype effect =
    Request sref string jobject
  | PreCreate string
  | DidCreate sref
  | DidChangeActive "sref option" "sref option"
  | DidDestroy sref
  | ServiceStop string
  | Dispose sref
  | ShowMessage string

record DebugSessionManager =
  activeDebugSessionId :: "string option"
  sessions :: "(string \<times> sref) list"
  sessionHeap :: "sref \<Rightarrow> DebugSession"
  nextSession :: sref
  configurations :: "cref \<Rightarrow> jobject"
  trace :: "effect list"

text \<open>A cell of the store of sessions that holds no session yet.\<close>

definition no_session :: "sref \<Rightarrow> DebugSession" where
  "no_session r = new_DebugSession [] 0"

text \<open>A cell of the store of configuration objects that holds no object yet.\<close>

definition no_configuration :: "cref \<Rightarrow> jobject" where
  "no_configuration c = []"

definition new_DebugSessionManager :: DebugSessionManager where
  "new_DebugSessionManager =
     \<lparr>activeDebugSessionId = None, sessions = [], sessionHeap = no_session,
      nextSession = 0, configurations = no_configuration, trace = []\<rparr>"

text \<open>
  The debug adapter is a parameter: from everything done so far, the request just sent
  being the last entry, it gives what awaiting that request yields.
\<close>

type_synonym adapter = "effect list \<Rightarrow> response"

definition emit :: "effect \<Rightarrow> DebugSessionManager \<Rightarrow> DebugSessionManager" where
  "emit e m = m\<lparr>trace := trace m @ [e]\<rparr>"

text \<open>
  Modelled from the spec: \<^verbatim>\<open>DebugSessionConnection.sendRequest\<close>
  (\<^verbatim>\<open>debug-session-connection.ts\<close>) is not among the sources. It sends one request and
  its promise is fulfilled with the response or rejected with the failure.
\<close>

definition sendRequest ::
  "adapter \<Rightarrow> sref \<Rightarrow> string \<Rightarrow> jobject \<Rightarrow> DebugSessionManager \<Rightarrow> response \<times> DebugSessionManager"
where
  "sendRequest adapter session command args m =
     (let m1 = emit (Request session command args) m in (adapter (trace m1), m1))"

text \<open>\<^verbatim>\<open>session.initialize(args)\<close> on a session of the store.\<close>

definition session_initialize ::
  "adapter \<Rightarrow> sref \<Rightarrow> jobject \<Rightarrow> DebugSessionManager \<Rightarrow> response \<times> DebugSessionManager"
where
  "session_initialize adapter session args m =
     (case sendRequest adapter session ''initialize'' args m of
        (resp, m1) \<Rightarrow>
          (case initialize resp (sessionHeap m1 session) of
             (result, s1) \<Rightarrow> (result, m1\<lparr>sessionHeap := (sessionHeap m1)(session := s1)\<rparr>)))"

definition INITIALIZE_ARGUMENTS :: jobject where
  "INITIALIZE_ARGUMENTS =
     [(''clientID'', JStr ''Theia''),
      (''clientName'', JStr ''Theia IDE''),
      (''locale'', JStr ''en-US''),
      (''linesStartAt1'', JBool True),
      (''columnsStartAt1'', JBool True),
      (''pathFormat'', JStr ''path''),
      (''supportsVariableType'', JBool False),
      (''supportsVariablePaging'', JBool False),
      (''supportsRunInTerminalRequest'', JBool True)]"

subsection \<open>The active session\<close>

definition find_session :: "string \<Rightarrow> DebugSessionManager \<Rightarrow> sref option" where
  "find_session sid m = Map_get (sessions m) sid"

definition currentSession :: "DebugSessionManager \<Rightarrow> sref option" where
  "currentSession m =
     (if truthy_str (activeDebugSessionId m)
      then (case activeDebugSessionId m of Some sid \<Rightarrow> Map_get (sessions m) sid | None \<Rightarrow> None)
      else None)"

definition setActiveDebugSession :: "string option \<Rightarrow> DebugSessionManager \<Rightarrow> DebugSessionManager" where
  "setActiveDebugSession sid m =
     (if truthy_str sid \<and> (case sid of Some i \<Rightarrow> find_session i m = None | None \<Rightarrow> False) then m
      else
        (let oldActiveSessionSession =
               (if truthy_str (activeDebugSessionId m)
                then (case activeDebugSessionId m of Some i \<Rightarrow> find_session i m | None \<Rightarrow> None)
                else None)
         in if activeDebugSessionId m \<noteq> sid
            then (let m1 = m\<lparr>activeDebugSessionId := sid\<rparr>
                  in emit (DidChangeActive oldActiveSessionSession (currentSession m1)) m1)
            else m))"

definition remove :: "string \<Rightarrow> DebugSessionManager \<Rightarrow> DebugSessionManager" where
  "remove sid m =
     (let m1 = m\<lparr>sessions := Map_delete (sessions m) sid\<rparr>
      in if truthy_str (activeDebugSessionId m1)
         then (if activeDebugSessionId m1 = Some sid
               then (if length (sessions m1) \<noteq> 0
                     then setActiveDebugSession (Map_first_key (sessions m1)) m1
                     else setActiveDebugSession None m1)
               else m1)
         else m1)"

subsection \<open>Destroying sessions\<close>

definition doDestroy :: "sref \<Rightarrow> DebugSessionManager \<Rightarrow> DebugSessionManager" where
  "doDestroy session m =
     (let sid = sessionId (sessionHeap m session);
          m1 = emit (ServiceStop sid) m;
          m2 = emit (Dispose session) m1;
          m3 = remove sid m2
      in emit (DidDestroy session) m3)"

text \<open>
  \<^verbatim>\<open>sessions.forEach\<close> visits the entries in order; an entry deleted before its turn is
  not visited.
\<close>

fun destroy_each :: "(string \<times> sref) list \<Rightarrow> DebugSessionManager \<Rightarrow> DebugSessionManager" where
  "destroy_each [] m = m"
| "destroy_each ((k, session) # rest) m =
     destroy_each rest (if Map_get (sessions m) k = Some session then doDestroy session m else m)"

definition destroy :: "string option \<Rightarrow> DebugSessionManager \<Rightarrow> DebugSessionManager" where
  "destroy sid m =
     (if truthy_str sid
      then (case sid of
              Some i \<Rightarrow> (case Map_get (sessions m) i of
                           Some session \<Rightarrow> doDestroy session m
                         | None \<Rightarrow> m)
            | None \<Rightarrow> m)
      else destroy_each (sessions m) m)"

subsection \<open>Launching, attaching, restarting\<close>

text \<open>
  \<^verbatim>\<open>onSessionInitializationFailed\<close> is called and not awaited: up to its first
  suspension point it destroys the session and asks for the notification.
\<close>

definition onSessionInitializationFailed ::
  "sref \<Rightarrow> failure \<Rightarrow> DebugSessionManager \<Rightarrow> DebugSessionManager"
where
  "onSessionInitializationFailed session cause m =
     (let m1 = destroy (Some (sessionId (sessionHeap m session))) m
      in emit (ShowMessage
                 (case cause of Failure msg \<Rightarrow>
                    if truthy_str msg then (case msg of Some text \<Rightarrow> text | None \<Rightarrow> [])
                    else ''Debug session initialization failed. See console for details.''))
           m1)"

text \<open>
  \<^verbatim>\<open>Object.assign(session.configuration, {...})\<close> writes the markers into the
  configuration object the session refers to, in place: whoever holds the same object
  sees them. The same object is the argument of the request.
\<close>

definition attach ::
  "adapter \<Rightarrow> sref \<Rightarrow> jobject \<Rightarrow> DebugSessionManager \<Rightarrow> (error + unit) \<times> DebugSessionManager"
where
  "attach adapter session initializeArgs m =
     (case session_initialize adapter session initializeArgs m of
        (Inl f, m1) \<Rightarrow> (Inl (RequestFailed f), m1)
      | (Inr body, m1) \<Rightarrow>
          (let config = configuration (sessionHeap m1 session);
               attachArgs = Object_assign (configurations m1 config) [(''__restart'', JBool False)];
               m2 = m1\<lparr>configurations := (configurations m1)(config := attachArgs)\<rparr>
           in case sendRequest adapter session ''attach'' attachArgs m2 of
                (Inl cause, m3) \<Rightarrow>
                  (Inl (RequestFailed cause), onSessionInitializationFailed session cause m3)
              | (Inr answer, m3) \<Rightarrow> (Inr (), m3)))"

definition launch ::
  "adapter \<Rightarrow> sref \<Rightarrow> jobject \<Rightarrow> DebugSessionManager \<Rightarrow> (error + unit) \<times> DebugSessionManager"
where
  "launch adapter session initializeArgs m =
     (case session_initialize adapter session initializeArgs m of
        (Inl f, m1) \<Rightarrow> (Inl (RequestFailed f), m1)
      | (Inr body, m1) \<Rightarrow>
          (let config = configuration (sessionHeap m1 session);
               launchArgs = Object_assign (configurations m1 config)
                              [(''__restart'', JBool False), (''noDebug'', JBool False)];
               m2 = m1\<lparr>configurations := (configurations m1)(config := launchArgs)\<rparr>
           in case sendRequest adapter session ''launch'' launchArgs m2 of
                (Inl cause, m3) \<Rightarrow>
                  (Inl (RequestFailed cause), onSessionInitializationFailed session cause m3)
              | (Inr answer, m3) \<Rightarrow> (Inr (), m3)))"

definition launchOrAttach ::
  "adapter \<Rightarrow> sref \<Rightarrow> DebugSessionManager \<Rightarrow> (error + unit) \<times> DebugSessionManager"
where
  "launchOrAttach adapter session m =
     (let config = configurations m (configuration (sessionHeap m session));
          initializeArgs =
            Object_assign INITIALIZE_ARGUMENTS
              [(''adapterID'', (case Map_get config ''type'' of Some v \<Rightarrow> v | None \<Rightarrow> JUndefined))];
          request = Map_get config ''request''
      in if request = Some (JStr ''attach'') then attach adapter session initializeArgs m
         else if request = Some (JStr ''launch'') then launch adapter session initializeArgs m
         else (Inl (UnsupportedRequest request), m))"

text \<open>\<^verbatim>\<open>session.disconnect(args)\<close> on a session of the store.\<close>

definition session_disconnect ::
  "adapter \<Rightarrow> sref \<Rightarrow> jobject \<Rightarrow> DebugSessionManager \<Rightarrow> (error + unit) \<times> DebugSessionManager"
where
  "session_disconnect adapter session args m =
     (case sendRequest adapter session ''disconnect'' args m of
        (Inl f, m1) \<Rightarrow> (Inl (RequestFailed f), m1)
      | (Inr answer, m1) \<Rightarrow> (Inr (), m1))"

text \<open>The second parameter of \<^verbatim>\<open>restart\<close>, the restart data of the adapter, is not used.\<close>

definition restart ::
  "adapter \<Rightarrow> sref \<Rightarrow> jvalue \<Rightarrow> DebugSessionManager \<Rightarrow> (error + unit) \<times> DebugSessionManager"
where
  "restart adapter session restartArg m =
     (case session_disconnect adapter session [(''restart'', JBool True)] m of
        (Inl e, m1) \<Rightarrow> (Inl e, m1)
      | (Inr u, m1) \<Rightarrow> launchOrAttach adapter session m1)"

text \<open>
  The listener for \<^verbatim>\<open>terminated\<close>: \<^verbatim>\<open>event.body && event.body.restart\<close> decides between
  a restart and a plain disconnect; neither promise is awaited.
\<close>

definition truthy_jvalue :: "jvalue option \<Rightarrow> bool" where
  "truthy_jvalue x =
     (case x of
        None \<Rightarrow> False
      | Some JUndefined \<Rightarrow> False
      | Some (JBool b) \<Rightarrow> b
      | Some (JNum n) \<Rightarrow> n \<noteq> 0
      | Some (JStr s) \<Rightarrow> s \<noteq> [])"

definition disconnect ::
  "adapter \<Rightarrow> sref \<Rightarrow> jvalue option \<Rightarrow> DebugSessionManager \<Rightarrow> DebugSessionManager"
where
  "disconnect adapter session restartField m =
     (if truthy_jvalue restartField
      then snd (restart adapter session (case restartField of Some v \<Rightarrow> v | None \<Rightarrow> JUndefined) m)
      else snd (session_disconnect adapter session [] m))"

subsection \<open>Creating a session\<close>

text \<open>
  \<^verbatim>\<open>create\<close> has no suspension point of its own: it registers the session made by the
  session factory (that of a contribution for the debug type, or the default one; either
  constructs a session with the given id and the given configuration object), calls \<^verbatim>\<open>launchOrAttach\<close> without awaiting it, and returns the session. The
  result holds what the promise of \<^verbatim>\<open>create\<close> yields, what the promise of the floating
  \<^verbatim>\<open>launchOrAttach\<close> yields, and the manager once that has run. The listeners for
  \<^verbatim>\<open>initialized\<close>, \<^verbatim>\<open>terminated\<close> and \<^verbatim>\<open>exited\<close> that \<^verbatim>\<open>create\<close> registers write no
  field of the manager.
\<close>

record create_result =
  returned :: "error + sref"
  launching :: "error + unit"
  manager :: DebugSessionManager

definition create :: "adapter \<Rightarrow> string \<Rightarrow> cref \<Rightarrow> DebugSessionManager \<Rightarrow> create_result" where
  "create adapter sid debugConfiguration m =
     (let m1 = emit (PreCreate sid) m;
          session = nextSession m1;
          m2 = m1\<lparr>sessionHeap := (sessionHeap m1)(session := new_DebugSession sid debugConfiguration),
                 nextSession := Suc session,
                 sessions := Map_set (sessions m1) sid session\<rparr>;
          m3 = emit (DidCreate session) m2
      in case launchOrAttach adapter session m3 of
           (floating, m4) \<Rightarrow> \<lparr>returned = Inr session, launching = floating, manager = m4\<rparr>)"

section \<open>Notions used in the properties\<close>

text \<open>The invariant of the session: there is no current thread, or it is stopped.\<close>

definition current_stopped :: "DebugSession \<Rightarrow> bool" where
  "current_stopped s =
     (case currentThread s of None \<Rightarrow> True | Some a \<Rightarrow> thread_state (heap s a) = Stopped)"

text \<open>A reported thread whose id the map before the refresh does not know.\<close>

definition unknown_id :: "(int \<times> ref) list \<Rightarrow> Thread_raw \<Rightarrow> bool" where
  "unknown_id existing r = (Map_get existing (thread_id r) = None)"

text \<open>
  What launching or attaching may change in the two stores: of the session objects, the
  capabilities of the session; of the configuration objects, the one the session refers
  to, which becomes one of the given objects.
\<close>

definition reconfigured ::
  "DebugSessionManager \<Rightarrow> DebugSessionManager \<Rightarrow> sref \<Rightarrow> jobject list \<Rightarrow> bool" where
  "reconfigured m m' session configs =
     (\<exists>config caps. config \<in> set configs \<and>
        sessionHeap m' =
          (sessionHeap m)(session := (sessionHeap m session)\<lparr>capabilities := caps\<rparr>) \<and>
        configurations m' =
          (configurations m)(configuration (sessionHeap m session) := config))"

definition restarted_configurations :: "jobject \<Rightarrow> jobject list" where
  "restarted_configurations config =
     (if Map_get config ''request'' = Some (JStr ''attach'')
      then [config, Object_assign config [(''__restart'', JBool False)]]
      else if Map_get config ''request'' = Some (JStr ''launch'')
      then [config,
            Object_assign config [(''__restart'', JBool False), (''noDebug'', JBool False)]]
      else [config])"

subsection \<open>Concrete sessions, adapters and configurations\<close>

definition stopped_at :: "int \<Rightarrow> StoppedDetails" where
  "stopped_at i =
     \<lparr>reason = ''breakpoint'', description = None, threadId = Some i,
      preserveFocusHint = None, allThreadsStopped = None\<rparr>"

definition stopped_keeping_focus :: "int \<Rightarrow> StoppedDetails" where
  "stopped_keeping_focus i =
     \<lparr>reason = ''breakpoint'', description = None, threadId = Some i,
      preserveFocusHint = Some True, allThreadsStopped = None\<rparr>"

definition stopped_nowhere :: StoppedDetails where
  "stopped_nowhere =
     \<lparr>reason = ''pause'', description = None, threadId = None,
      preserveFocusHint = None, allThreadsStopped = None\<rparr>"

definition raw_thread :: "int \<Rightarrow> string \<Rightarrow> Thread_raw" where
  "raw_thread i n = \<lparr>thread_id = i, thread_name = n\<rparr>"

text \<open>Threads A, B and C with ids 1, 2 and 3, reported after a stop of B: the objects
  are at the references 0, 1 and 2.\<close>

definition three_threads :: DebugSession where
  "three_threads =
     run_steps
       [Event (StoppedEvent (stopped_at 2)),
        ThreadsResponse (Inr [raw_thread 1 ''A'', raw_thread 2 ''B'', raw_thread 3 ''C''])
          (Some (stopped_at 2))]
       (new_DebugSession ''session'' 0)"

text \<open>The same threads reported after a stop of A, which is then the current thread.\<close>

definition first_stopped :: DebugSession where
  "first_stopped =
     run_steps
       [Event (StoppedEvent (stopped_at 1)),
        ThreadsResponse (Inr [raw_thread 1 ''A'', raw_thread 2 ''B'', raw_thread 3 ''C''])
          (Some (stopped_at 1))]
       (new_DebugSession ''session'' 0)"

text \<open>The session in the middle of a refresh that reports B and C only, while A is
  still in the slot of the current thread.\<close>

definition first_dropped :: DebugSession where
  "first_dropped =
     updateThreads_loop (threads first_stopped) None
       [raw_thread 2 ''B'', raw_thread 3 ''C''] (first_stopped\<lparr>threads := []\<rparr>)"

text \<open>The same threads reported after a stop of B that asks to keep the focus: B is
  stopped and no thread is current.\<close>

definition focus_kept :: DebugSession where
  "focus_kept =
     run_steps
       [Event (StoppedEvent (stopped_keeping_focus 2)),
        ThreadsResponse (Inr [raw_thread 1 ''A'', raw_thread 2 ''B'', raw_thread 3 ''C''])
          (Some (stopped_keeping_focus 2))]
       (new_DebugSession ''session'' 0)"

definition failing_at :: "ref \<Rightarrow> ref \<Rightarrow> failure + unit" where
  "failing_at bad a = (if a = bad then Inl (Failure (Some ''timeout'')) else Inr ())"

definition always_succeeds :: adapter where
  "always_succeeds done = Inr None"

definition always_fails :: adapter where
  "always_fails done = Inl (Failure None)"

definition bogus_configuration :: jobject where
  "bogus_configuration = [(''type'', JStr ''node''), (''request'', JStr ''bogus'')]"

definition run_configuration :: jobject where
  "run_configuration =
     [(''type'', JStr ''node''), (''request'', JStr ''launch''), (''noDebug'', JBool True)]"

definition attach_configuration :: jobject where
  "attach_configuration =
     [(''type'', JStr ''node''), (''request'', JStr ''attach''), (''port'', JNum 9229)]"

text \<open>The caller's configuration object at a reference of the store.\<close>

definition with_configuration ::
  "cref \<Rightarrow> jobject \<Rightarrow> DebugSessionManager \<Rightarrow> DebugSessionManager" where
  "with_configuration c config m = m\<lparr>configurations := (configurations m)(c := config)\<rparr>"

text \<open>A manager whose caller holds a configuration with an unsupported request kind.\<close>

definition bogus_start :: DebugSessionManager where
  "bogus_start = with_configuration 0 bogus_configuration new_DebugSessionManager"

text \<open>A session whose first \<^verbatim>\<open>initialize\<close> request failed, and an attached session.\<close>

definition launch_pending :: DebugSessionManager where
  "launch_pending =
     manager (create always_fails ''s1'' 0
       (with_configuration 0 run_configuration new_DebugSessionManager))"

definition attached :: DebugSessionManager where
  "attached =
     manager (create always_succeeds ''s2'' 0
       (with_configuration 0 attach_configuration new_DebugSessionManager))"

text \<open>Two sessions created with one and the same configuration object.\<close>

definition sharing :: DebugSessionManager where
  "sharing =
     manager (create always_fails ''b'' 0
       (manager (create always_fails ''a'' 0
          (with_configuration 0 run_configuration new_DebugSessionManager))))"

text \<open>Two sessions, the first of them active; in the second manager the id of the
  second session is the empty string.\<close>

definition two_sessions :: DebugSessionManager where
  "two_sessions =
     setActiveDebugSession (Some ''one'')
       (manager (create always_succeeds ''two'' 1
          (manager (create always_succeeds ''one'' 0
             (with_configuration 1 run_configuration
                (with_configuration 0 run_configuration new_DebugSessionManager))))))"

definition empty_id_sessions :: DebugSessionManager where
  "empty_id_sessions =
     setActiveDebugSession (Some ''one'')
       (manager (create always_succeeds [] 1
          (manager (create always_succeeds ''one'' 0
             (with_configuration 1 run_configuration
                (with_configuration 0 run_configuration new_DebugSessionManager))))))"

section \<open>Evaluation of the concrete inputs\<close>

lemma three_threads_threads: "threads three_threads = [(1, 0), (2, 1), (3, 2)]"
  by code_simp

lemma three_threads_current: "currentThread three_threads = Some 1"
  by code_simp

lemma three_threads_nextRef: "nextRef three_threads = 3"
  by code_simp

lemma three_threads_A: "heap three_threads 0 = \<lparr>raw = raw_thread 1 ''A'', stoppedDetails = None\<rparr>"
  by code_simp

lemma three_threads_B:
  "heap three_threads (Suc 0) = \<lparr>raw = raw_thread 2 ''B'', stoppedDetails = Some (stopped_at 2)\<rparr>"
  by code_simp

lemma three_threads_C: "heap three_threads 2 = \<lparr>raw = raw_thread 3 ''C'', stoppedDetails = None\<rparr>"
  by code_simp

lemma two_sessions_sessions: "sessions two_sessions = [(''one'', 0), (''two'', 1)]"
  by code_simp

lemma two_sessions_active: "activeDebugSessionId two_sessions = Some ''one''"
  by code_simp

lemma first_stopped_threads: "threads first_stopped = [(1, 0), (2, 1), (3, 2)]"
  by code_simp

lemma first_stopped_current: "currentThread first_stopped = Some 0"
  by code_simp

lemma first_stopped_A:
  "heap first_stopped 0 = \<lparr>raw = raw_thread 1 ''A'', stoppedDetails = Some (stopped_at 1)\<rparr>"
  by code_simp

lemma first_stopped_B:
  "heap first_stopped (Suc 0) = \<lparr>raw = raw_thread 2 ''B'', stoppedDetails = None\<rparr>"
  by code_simp

lemma focus_kept_threads: "threads focus_kept = [(1, 0), (2, 1), (3, 2)]"
  by code_simp

lemma focus_kept_current: "currentThread focus_kept = None"
  by code_simp

lemma focus_kept_A: "heap focus_kept 0 = \<lparr>raw = raw_thread 1 ''A'', stoppedDetails = None\<rparr>"
  by code_simp

lemma first_dropped_threads: "threads first_dropped = [(2, 1), (3, 2)]"
  by code_simp

lemma first_dropped_current: "currentThread first_dropped = Some 0"
  by code_simp

lemma first_dropped_A:
  "heap first_dropped 0 = \<lparr>raw = raw_thread 1 ''A'', stoppedDetails = Some (stopped_at 1)\<rparr>"
  by code_simp

lemma first_dropped_B:
  "heap first_dropped (Suc 0) = \<lparr>raw = raw_thread 2 ''B'', stoppedDetails = None\<rparr>"
  by code_simp

section \<open>Capabilities\<close>

lemma Object_assign_absent:
  "k \<notin> fst ` set source \<Longrightarrow> Map_get (Object_assign target source) k = Map_get target k"
  unfolding Object_assign_def
  by (induction source arbitrary: target) (auto simp: update_conv')

lemma Object_assign_present:
  "distinct (map fst source) \<Longrightarrow> (k, v) \<in> set source \<Longrightarrow>
   Map_get (Object_assign target source) k = Some v"
proof (induction source arbitrary: target)
  case Nil
  then show ?case by simp
next
  case (Cons p source)
  obtain k' v' where p: "p = (k', v')" by (cases p)
  have step: "Object_assign target (p # source) = Object_assign (Map_set target k' v') source"
    by (simp add: Object_assign_def p)
  show ?case
  proof (cases "(k, v) \<in> set source")
    case True
    with Cons show ?thesis by (simp add: step)
  next
    case False
    with Cons.prems p have kv: "k' = k" "v' = v" and notin: "k \<notin> fst ` set source"
      by auto
    show ?thesis
      by (simp add: step Object_assign_absent [OF notin] kv update_conv')
  qed
qed

text \<open>
  Claim C2, as amended. A \<^verbatim>\<open>capabilities\<close> event merges into the record: a field absent
  from the update keeps its value, a field of the update takes the new value; merging
  \<open>{a:1}\<close> and then \<open>{b:2}\<close> into the empty record gives \<open>{a:1,b:2}\<close>, and merging
  \<open>{a:3}\<close> after that gives \<open>{a:3,b:2}\<close>. An \<^verbatim>\<open>initialize\<close> response does not merge: it
  replaces the record by the body of the response, or by the empty record when the
  response has no body; a failed \<^verbatim>\<open>initialize\<close> request leaves the session as it is.
\<close>

theorem capabilities_merged_by_event_replaced_by_initialize:
  "(\<forall>k. k \<notin> fst ` set caps \<longrightarrow>
        Map_get (capabilities (updateCapabilities caps s)) k = Map_get (capabilities s) k)
 \<and> (\<forall>k v. distinct (map fst caps) \<and> (k, v) \<in> set caps \<longrightarrow>
        Map_get (capabilities (updateCapabilities caps s)) k = Some v)
 \<and> on_event (CapabilitiesEvent caps) s = updateCapabilities caps s
 \<and> capabilities
      (updateCapabilities [(''b'', JNum 2)]
        (updateCapabilities [(''a'', JNum 1)] (new_DebugSession sid config))) =
      [(''a'', JNum 1), (''b'', JNum 2)]
 \<and> capabilities
      (updateCapabilities [(''a'', JNum 3)]
        (updateCapabilities [(''b'', JNum 2)]
          (updateCapabilities [(''a'', JNum 1)] (new_DebugSession sid config)))) =
      [(''a'', JNum 3), (''b'', JNum 2)]
 \<and> snd (initialize (Inr body) s) = s\<lparr>capabilities := (case body of Some b \<Rightarrow> b | None \<Rightarrow> [])\<rparr>
 \<and> snd (initialize (Inl f) s) = s"
proof -
  have absent: "\<forall>k. k \<notin> fst ` set caps \<longrightarrow>
        Map_get (capabilities (updateCapabilities caps s)) k = Map_get (capabilities s) k"
    by (simp add: updateCapabilities_def Object_assign_absent)
  have present: "\<forall>k v. distinct (map fst caps) \<and> (k, v) \<in> set caps \<longrightarrow>
        Map_get (capabilities (updateCapabilities caps s)) k = Some v"
    by (simp add: updateCapabilities_def Object_assign_present)
  have examples:
    "capabilities
      (updateCapabilities [(''b'', JNum 2)]
        (updateCapabilities [(''a'', JNum 1)] (new_DebugSession sid config))) =
      [(''a'', JNum 1), (''b'', JNum 2)]"
    "capabilities
      (updateCapabilities [(''a'', JNum 3)]
        (updateCapabilities [(''b'', JNum 2)]
          (updateCapabilities [(''a'', JNum 1)] (new_DebugSession sid config)))) =
      [(''a'', JNum 3), (''b'', JNum 2)]"
    by (simp_all add: updateCapabilities_def Object_assign_def new_DebugSession_def)
  have init: "snd (initialize (Inr body) s) = s\<lparr>capabilities := (case body of Some b \<Rightarrow> b | None \<Rightarrow> [])\<rparr>"
    "snd (initialize (Inl f) s) = s"
    by (simp_all add: initialize_def)
  from absent present examples init show ?thesis by simp
qed

theorem capabilities_merged_by_event_replaced_by_initialize_witness:
  "Map_get (capabilities (updateCapabilities [(''b'', JNum 2)]
      (updateCapabilities [(''a'', JNum 1)] (new_DebugSession ''session'' 0)))) ''a'' = Some (JNum 1)
 \<and> Map_get (capabilities (updateCapabilities [(''b'', JNum 2)]
      (updateCapabilities [(''a'', JNum 1)] (new_DebugSession ''session'' 0)))) ''b'' = Some (JNum 2)"
proof -
  let ?s = "updateCapabilities [(''a'', JNum 1)] (new_DebugSession ''session'' 0)"
  have absent: "''a'' \<notin> fst ` set [(''b'', JNum 2)]" by simp
  have present: "distinct (map fst [(''b'', JNum 2)]) \<and> (''b'', JNum 2) \<in> set [(''b'', JNum 2)]"
    by simp
  have before: "Map_get (capabilities ?s) ''a'' = Some (JNum 1)"
    by (simp add: updateCapabilities_def Object_assign_def new_DebugSession_def)
  from capabilities_merged_by_event_replaced_by_initialize [of "[(''b'', JNum 2)]" ?s]
    absent present before
  show ?thesis by metis
qed

text \<open>
  Claim C2 as stated fails on the \<^verbatim>\<open>initialize\<close> path: with capabilities \<open>{a:1}\<close>, an
  \<^verbatim>\<open>initialize\<close> response with body \<open>{b:2}\<close> leaves \<open>{b:2}\<close>, not \<open>{a:1,b:2}\<close>.
\<close>

theorem initialize_replaces_capabilities:
  "capabilities (snd (initialize (Inr (Some [(''b'', JNum 2)]))
      (updateCapabilities [(''a'', JNum 1)] (new_DebugSession ''session'' 0)))) = [(''b'', JNum 2)]
 \<and> capabilities (snd (initialize (Inr (Some [(''b'', JNum 2)]))
      (updateCapabilities [(''a'', JNum 1)] (new_DebugSession ''session'' 0)))) \<noteq>
     [(''a'', JNum 1), (''b'', JNum 2)]"
  by (simp add: initialize_def)

section \<open>The current thread\<close>

lemma setCurrentThread_stopped: "current_stopped (setCurrentThread thread s)"
  by (simp add: current_stopped_def setCurrentThread_def doSetCurrentThread_def split: option.splits)

lemma updateCurrentThread_stopped: "current_stopped (updateCurrentThread sd s)"
  by (simp add: updateCurrentThread_def Let_def setCurrentThread_stopped)

lemma updateCurrentThread_frame:
  "heap (updateCurrentThread sd s) = heap s"
  "threads (updateCurrentThread sd s) = threads s"
  "nextRef (updateCurrentThread sd s) = nextRef s"
  by (simp_all add: updateCurrentThread_def Let_def setCurrentThread_def doSetCurrentThread_def)

lemma clearThreads_stopped: "current_stopped (clearThreads s)"
  by (simp add: clearThreads_def updateCurrentThread_stopped)

lemma clearThread_stopped: "current_stopped (clearThread tid s)"
  by (simp add: clearThread_def updateCurrentThread_stopped)

lemma resolveThreads_stopped: "current_stopped (resolveThreads sd s) = current_stopped s"
  by (simp add: resolveThreads_def current_stopped_def split: option.splits)

lemma updateCapabilities_stopped: "current_stopped (updateCapabilities caps s) = current_stopped s"
  by (simp add: updateCapabilities_def current_stopped_def split: option.splits)

lemma on_event_stopped: "current_stopped s \<Longrightarrow> current_stopped (on_event e s)"
  by (cases e)
     (simp_all add: clearThreads_stopped clearThread_stopped resolveThreads_stopped
        updateCapabilities_stopped)

lemma do_step_stopped: "current_stopped s \<Longrightarrow> current_stopped (do_step st s)"
proof (cases st)
  case (Event e)
  assume "current_stopped s"
  with Event show ?thesis by (simp add: on_event_stopped)
next
  case (ThreadsResponse resp sd)
  assume "current_stopped s"
  with ThreadsResponse show ?thesis
    by (cases resp) (simp_all add: updateThreads_def updateCurrentThread_stopped)
qed

lemma run_steps_stopped: "current_stopped s \<Longrightarrow> current_stopped (run_steps steps s)"
  unfolding run_steps_def
  by (induction steps arbitrary: s) (simp_all add: do_step_stopped)

text \<open>
  Claim C1. Whatever events (\<^verbatim>\<open>stopped\<close>, \<^verbatim>\<open>continued\<close> and \<^verbatim>\<open>thread\<close>, and also
  \<^verbatim>\<open>capabilities\<close> and the end of the configuration) and thread refreshes a new session
  goes through, after each of them the current thread is absent or its state is Stopped;
  and \<^verbatim>\<open>setCurrentThread\<close>, in any session and for any thread, installs no thread whose
  state is not Stopped.
\<close>

theorem current_thread_absent_or_stopped:
  "(\<forall>n. current_stopped (run_steps (take n steps) (new_DebugSession sid config)))
 \<and> current_stopped (setCurrentThread thread s)"
proof -
  have "current_stopped (new_DebugSession sid config)"
    by (simp add: current_stopped_def new_DebugSession_def)
  then have "\<forall>n. current_stopped (run_steps (take n steps) (new_DebugSession sid config))"
    by (simp add: run_steps_stopped)
  then show ?thesis by (simp add: setCurrentThread_stopped)
qed

theorem current_thread_absent_or_stopped_witness:
  "current_stopped
     (run_steps
        (take 3
           [Event (StoppedEvent (stopped_at 2)),
            ThreadsResponse (Inr [raw_thread 1 ''A'', raw_thread 2 ''B''])
              (Some (stopped_at 2)),
            Event (Continued (Some False) 2),
            Event (ThreadEvent ''exited'' 1)])
        (new_DebugSession ''session'' 0))
 \<and> current_stopped (setCurrentThread (Some 0) three_threads)"
  using current_thread_absent_or_stopped
    [of "[Event (StoppedEvent (stopped_at 2)),
          ThreadsResponse (Inr [raw_thread 1 ''A'', raw_thread 2 ''B'']) (Some (stopped_at 2)),
          Event (Continued (Some False) 2),
          Event (ThreadEvent ''exited'' 1)]"
        "''session''" 0 "Some 0" three_threads]
  by blast

section \<open>The \<^verbatim>\<open>continued\<close> event\<close>

lemma thread_clear_eq: "thread_clear t = t\<lparr>stoppedDetails := None\<rparr>"
  by (simp add: thread_clear_def thread_update_def)

lemma fold_clear_at:
  "fold clear_at as h a = (if a \<in> set as then (h a)\<lparr>stoppedDetails := None\<rparr> else h a)"
  by (induction as arbitrary: h) (auto simp: clear_at_def thread_clear_eq)

lemma Map_get_value: "Map_get m i = Some a \<Longrightarrow> a \<in> snd ` set m"
  by (metis image_eqI map_of_SomeD snd_conv)

lemma Map_first_value_value: "Map_first_value m = Some a \<Longrightarrow> a \<in> snd ` set m"
  by (cases m) (auto simp: Map_first_value_def)

text \<open>The current thread that \<^verbatim>\<open>updateCurrentThread()\<close> computes is a thread of the map
  that is stopped.\<close>

lemma updateCurrentThread_None_in_map:
  "currentThread (updateCurrentThread None s) = Some a \<Longrightarrow>
   a \<in> snd ` set (threads s) \<and> stoppedDetails (heap s a) \<noteq> None"
  by (auto simp: updateCurrentThread_def Let_def setCurrentThread_def doSetCurrentThread_def
        thread_state_def Map_get_value Map_first_value_value split: option.splits if_splits)

lemma clearThreads_current: "currentThread (clearThreads s) = None"
proof (cases "currentThread (clearThreads s)")
  case None
  then show ?thesis .
next
  case (Some a)
  let ?s1 = "s\<lparr>heap := fold clear_at (map snd (threads s)) (heap s)\<rparr>"
  from Some have "currentThread (updateCurrentThread None ?s1) = Some a"
    by (simp add: clearThreads_def)
  from updateCurrentThread_None_in_map [OF this]
  have "a \<in> snd ` set (threads s)" and "stoppedDetails (heap ?s1 a) \<noteq> None"
    by simp_all
  then show ?thesis by (simp add: fold_clear_at)
qed

lemma clearThread_current:
  "currentThread (clearThread tid s) =
     (case (case currentThread s of
              Some c \<Rightarrow> (case Map_get (threads s) (thread_id (raw (heap s c))) of
                           Some a \<Rightarrow> Some a
                         | None \<Rightarrow> Map_first_value (threads s))
            | None \<Rightarrow> Map_first_value (threads s)) of
        Some a \<Rightarrow>
          if stoppedDetails (heap s a) \<noteq> None \<and> Map_get (threads s) tid \<noteq> Some a
          then Some a else None
      | None \<Rightarrow> None)"
  by (auto simp: clearThread_def updateCurrentThread_def Let_def setCurrentThread_def
        doSetCurrentThread_def thread_state_def clear_at_def thread_clear_eq
        split: option.splits)

text \<open>
  Claim C5. On a \<^verbatim>\<open>continued\<close> event whose \<^verbatim>\<open>allThreadsContinued\<close> is not exactly false
  (absent included), every thread object of the map loses its stopped details and no
  other object changes; when it is exactly false, only the object the map holds for the
  named thread id loses them and every other object stays as it was. The map itself is
  kept. In both cases the current thread is recomputed afterwards, on the cleared
  objects: after clearing all threads there is no current thread; after clearing the
  named thread, the candidate is the thread the map holds for the id of the previous
  current thread, or the first thread of the map when there is no such thread, and it
  is the current thread if it still has its stopped details, that is, if it had them
  and is not the named thread; otherwise there is no current thread.
\<close>

theorem continued_clears_threads:
  "(allThreadsContinued \<noteq> Some False \<longrightarrow>
      (\<forall>a. heap (on_event (Continued allThreadsContinued tid) s) a =
            (if a \<in> snd ` set (threads s)
             then (heap s a)\<lparr>stoppedDetails := None\<rparr> else heap s a)))
 \<and> (allThreadsContinued = Some False \<longrightarrow>
      (\<forall>a. heap (on_event (Continued allThreadsContinued tid) s) a =
            (if Map_get (threads s) tid = Some a
             then (heap s a)\<lparr>stoppedDetails := None\<rparr> else heap s a)))
 \<and> threads (on_event (Continued allThreadsContinued tid) s) = threads s
 \<and> on_event (Continued allThreadsContinued tid) s =
      updateCurrentThread None
        (s\<lparr>heap := heap (on_event (Continued allThreadsContinued tid) s)\<rparr>)
 \<and> (allThreadsContinued \<noteq> Some False \<longrightarrow>
      currentThread (on_event (Continued allThreadsContinued tid) s) = None)
 \<and> (allThreadsContinued = Some False \<longrightarrow>
      currentThread (on_event (Continued allThreadsContinued tid) s) =
        (case (case currentThread s of
                 Some c \<Rightarrow> (case Map_get (threads s) (thread_id (raw (heap s c))) of
                              Some a \<Rightarrow> Some a
                            | None \<Rightarrow> Map_first_value (threads s))
               | None \<Rightarrow> Map_first_value (threads s)) of
           Some a \<Rightarrow>
             if stoppedDetails (heap s a) \<noteq> None \<and> Map_get (threads s) tid \<noteq> Some a
             then Some a else None
         | None \<Rightarrow> None))"
proof -
  have frame: "(allThreadsContinued \<noteq> Some False \<longrightarrow>
      (\<forall>a. heap (on_event (Continued allThreadsContinued tid) s) a =
            (if a \<in> snd ` set (threads s)
             then (heap s a)\<lparr>stoppedDetails := None\<rparr> else heap s a)))
 \<and> (allThreadsContinued = Some False \<longrightarrow>
      (\<forall>a. heap (on_event (Continued allThreadsContinued tid) s) a =
            (if Map_get (threads s) tid = Some a
             then (heap s a)\<lparr>stoppedDetails := None\<rparr> else heap s a)))
 \<and> threads (on_event (Continued allThreadsContinued tid) s) = threads s
 \<and> on_event (Continued allThreadsContinued tid) s =
      updateCurrentThread None
        (s\<lparr>heap := heap (on_event (Continued allThreadsContinued tid) s)\<rparr>)"
    by (auto simp: clearThreads_def clearThread_def updateCurrentThread_frame fold_clear_at
          clear_at_def thread_clear_eq split: option.splits)
  have every: "allThreadsContinued \<noteq> Some False \<longrightarrow>
      currentThread (on_event (Continued allThreadsContinued tid) s) = None"
    by (simp add: clearThreads_current)
  have named: "allThreadsContinued = Some False \<longrightarrow>
      currentThread (on_event (Continued allThreadsContinued tid) s) =
        (case (case currentThread s of
                 Some c \<Rightarrow> (case Map_get (threads s) (thread_id (raw (heap s c))) of
                              Some a \<Rightarrow> Some a
                            | None \<Rightarrow> Map_first_value (threads s))
               | None \<Rightarrow> Map_first_value (threads s)) of
           Some a \<Rightarrow>
             if stoppedDetails (heap s a) \<noteq> None \<and> Map_get (threads s) tid \<noteq> Some a
             then Some a else None
         | None \<Rightarrow> None)"
    by (simp add: clearThread_current)
  from frame every named show ?thesis by (intro conjI) (elim conjE, assumption)+
qed

theorem continued_clears_threads_witness:
  "stoppedDetails (heap (on_event (Continued None 1) three_threads) 1) = None
 \<and> stoppedDetails (heap (on_event (Continued (Some False) 1) three_threads) 1) =
     Some (stopped_at 2)
 \<and> stoppedDetails (heap (on_event (Continued (Some False) 2) three_threads) 1) = None
 \<and> currentThread (on_event (Continued None 1) three_threads) = None
 \<and> currentThread (on_event (Continued (Some False) 1) three_threads) = Some 1
 \<and> currentThread (on_event (Continued (Some False) 2) three_threads) = None"
proof -
  have all: "None \<noteq> Some False" and one: "Some False = Some False"
    by simp_all
  have member: "(1::nat) \<in> snd ` set (threads three_threads)"
    and A: "Map_get (threads three_threads) 1 \<noteq> Some 1"
    and B: "Map_get (threads three_threads) 2 = Some 1"
    by (simp_all add: three_threads_threads)
  have id_B: "thread_id (raw (heap three_threads (Suc 0))) = 2"
    and stopped_B: "stoppedDetails (heap three_threads (Suc 0)) \<noteq> None"
    by (simp_all add: three_threads_B raw_thread_def)
  note every = continued_clears_threads [of None 1 three_threads]
  note other = continued_clears_threads [of "Some False" 1 three_threads]
  note same = continued_clears_threads [of "Some False" 2 three_threads]
  from every all member
  have h1: "stoppedDetails (heap (on_event (Continued None 1) three_threads) 1) = None"
    by simp
  from other one A
  have h2: "stoppedDetails (heap (on_event (Continued (Some False) 1) three_threads) 1) =
     Some (stopped_at 2)"
    by (simp add: three_threads_B)
  from same one B
  have h3: "stoppedDetails (heap (on_event (Continued (Some False) 2) three_threads) 1) = None"
    by simp
  from every all
  have c1: "currentThread (on_event (Continued None 1) three_threads) = None"
    by simp
  from other
  have "currentThread (on_event (Continued (Some False) 1) three_threads) =
        (case (case currentThread three_threads of
                 Some c \<Rightarrow> (case Map_get (threads three_threads)
                                     (thread_id (raw (heap three_threads c))) of
                              Some a \<Rightarrow> Some a
                            | None \<Rightarrow> Map_first_value (threads three_threads))
               | None \<Rightarrow> Map_first_value (threads three_threads)) of
           Some a \<Rightarrow>
             if stoppedDetails (heap three_threads a) \<noteq> None
                \<and> Map_get (threads three_threads) 1 \<noteq> Some a
             then Some a else None
         | None \<Rightarrow> None)"
    by simp
  then have c2: "currentThread (on_event (Continued (Some False) 1) three_threads) = Some 1"
    using id_B stopped_B B A by (simp add: three_threads_current)
  from same
  have "currentThread (on_event (Continued (Some False) 2) three_threads) =
        (case (case currentThread three_threads of
                 Some c \<Rightarrow> (case Map_get (threads three_threads)
                                     (thread_id (raw (heap three_threads c))) of
                              Some a \<Rightarrow> Some a
                            | None \<Rightarrow> Map_first_value (threads three_threads))
               | None \<Rightarrow> Map_first_value (threads three_threads)) of
           Some a \<Rightarrow>
             if stoppedDetails (heap three_threads a) \<noteq> None
                \<and> Map_get (threads three_threads) 2 \<noteq> Some a
             then Some a else None
         | None \<Rightarrow> None)"
    by simp
  then have c3: "currentThread (on_event (Continued (Some False) 2) three_threads) = None"
    using id_B stopped_B B by (simp add: three_threads_current)
  from h1 h2 h3 c1 c2 c3 show ?thesis by simp
qed

section \<open>Focus after a stop\<close>

text \<open>
  Claim C10, as amended. Stop details whose thread id is 0 or absent, and stop details
  with the preserve-focus hint set, take no part in the choice of the current thread:
  \<^verbatim>\<open>updateCurrentThread\<close> then does what it does without stop details, in particular in
  the recomputation that ends a refresh. Without stop details the candidate is the
  thread the map holds for the id of the previous current thread, and the first thread
  of the map when the map has no thread of that id or there was no current thread; that
  candidate may be the thread with id 0 itself. Stop details with a truthy thread id
  and no preserve-focus hint make the thread of that id the candidate if the map has
  it, and the first thread of the map otherwise. In every case the candidate becomes
  the current thread if it is stopped, and there is no current thread otherwise;
  nothing but the slot of the current thread changes.
\<close>

theorem stop_details_thread_preferred_iff_truthy:
  "(\<not> truthy_num (threadId d) \<longrightarrow>
      updateCurrentThread (Some d) s = updateCurrentThread None s)
 \<and> (truthy_bool (preserveFocusHint d) \<longrightarrow>
      updateCurrentThread (Some d) s = updateCurrentThread None s)
 \<and> (\<not> truthy_num (threadId d) \<longrightarrow>
      currentThread (updateThreads rs (Some d) s) =
      currentThread (updateCurrentThread None
        (updateThreads_loop (threads s) (Some d) rs (s\<lparr>threads := []\<rparr>))))
 \<and> (currentThread s = Some c \<and> Map_get (threads s) (thread_id (raw (heap s c))) = Some a \<longrightarrow>
      currentThread (updateCurrentThread None s) =
        (if thread_state (heap s a) = Stopped then Some a else None))
 \<and> (currentThread s = Some c \<and> Map_get (threads s) (thread_id (raw (heap s c))) = None \<longrightarrow>
      currentThread (updateCurrentThread None s) =
        (case Map_first_value (threads s) of
           Some b \<Rightarrow> if thread_state (heap s b) = Stopped then Some b else None
         | None \<Rightarrow> None))
 \<and> (currentThread s = None \<longrightarrow>
      currentThread (updateCurrentThread None s) =
        (case Map_first_value (threads s) of
           Some b \<Rightarrow> if thread_state (heap s b) = Stopped then Some b else None
         | None \<Rightarrow> None))
 \<and> (truthy_num (threadId d) \<and> \<not> truthy_bool (preserveFocusHint d)
      \<and> threadId d = Some i \<and> Map_get (threads s) i = Some a \<longrightarrow>
      currentThread (updateCurrentThread (Some d) s) =
        (if thread_state (heap s a) = Stopped then Some a else None))
 \<and> (truthy_num (threadId d) \<and> \<not> truthy_bool (preserveFocusHint d)
      \<and> threadId d = Some i \<and> Map_get (threads s) i = None \<longrightarrow>
      currentThread (updateCurrentThread (Some d) s) =
        (case Map_first_value (threads s) of
           Some b \<Rightarrow> if thread_state (heap s b) = Stopped then Some b else None
         | None \<Rightarrow> None))
 \<and> heap (updateCurrentThread sd s) = heap s
 \<and> threads (updateCurrentThread sd s) = threads s"
  by (auto simp: updateCurrentThread_def updateThreads_def Let_def setCurrentThread_def
        doSetCurrentThread_def split: option.splits)

theorem stop_details_thread_preferred_iff_truthy_witness:
  "updateCurrentThread (Some (stopped_at 0)) three_threads =
     updateCurrentThread None three_threads
 \<and> updateCurrentThread (Some stopped_nowhere) three_threads =
     updateCurrentThread None three_threads
 \<and> currentThread (updateCurrentThread (Some (stopped_keeping_focus 2)) first_stopped) = Some 0
 \<and> currentThread (updateCurrentThread None first_dropped) = None
 \<and> currentThread (updateCurrentThread None focus_kept) = None
 \<and> currentThread (updateCurrentThread (Some (stopped_at 1)) three_threads) = None
 \<and> currentThread (updateCurrentThread (Some (stopped_at 2)) three_threads) = Some 1
 \<and> currentThread (updateCurrentThread (Some (stopped_at 7)) first_stopped) = Some 0"
proof -
  have zero: "\<not> truthy_num (threadId (stopped_at 0))"
    and none: "\<not> truthy_num (threadId stopped_nowhere)"
    and hint: "truthy_bool (preserveFocusHint (stopped_keeping_focus 2))"
    by (simp_all add: truthy_num_def truthy_bool_def stopped_at_def stopped_nowhere_def
          stopped_keeping_focus_def)
  have named: "truthy_num (threadId (stopped_at i)) = (i \<noteq> 0)"
    "\<not> truthy_bool (preserveFocusHint (stopped_at i))" "threadId (stopped_at i) = Some i" for i
    by (simp_all add: truthy_num_def truthy_bool_def stopped_at_def)
  have A_running: "thread_state (heap three_threads 0) \<noteq> Stopped"
    and B_stopped: "thread_state (heap three_threads (Suc 0)) = Stopped"
    and A_stopped: "thread_state (heap first_stopped 0) = Stopped"
    and A_id: "thread_id (raw (heap first_stopped 0)) = 1"
    and dropped_id: "thread_id (raw (heap first_dropped 0)) = 1"
    and dropped_B: "thread_state (heap first_dropped (Suc 0)) \<noteq> Stopped"
    and kept_A: "thread_state (heap focus_kept 0) \<noteq> Stopped"
    by (simp_all add: three_threads_A three_threads_B first_stopped_A first_dropped_A
          first_dropped_B focus_kept_A thread_state_def raw_thread_def)
  from stop_details_thread_preferred_iff_truthy [where d = "stopped_at 0" and s = three_threads]
    zero
  have w1: "updateCurrentThread (Some (stopped_at 0)) three_threads =
     updateCurrentThread None three_threads"
    by simp
  from stop_details_thread_preferred_iff_truthy [where d = stopped_nowhere and s = three_threads]
    none
  have w2: "updateCurrentThread (Some stopped_nowhere) three_threads =
     updateCurrentThread None three_threads"
    by simp
  from stop_details_thread_preferred_iff_truthy
    [where d = "stopped_keeping_focus 2" and s = first_stopped and c = 0 and a = 0]
    hint A_stopped A_id
  have w3: "currentThread (updateCurrentThread (Some (stopped_keeping_focus 2)) first_stopped) =
     Some 0"
    by (simp add: first_stopped_current first_stopped_threads)
  from stop_details_thread_preferred_iff_truthy [where s = first_dropped and c = 0]
    dropped_id dropped_B
  have w4: "currentThread (updateCurrentThread None first_dropped) = None"
    by (simp add: first_dropped_current first_dropped_threads Map_first_value_def)
  from stop_details_thread_preferred_iff_truthy [where s = focus_kept] kept_A
  have w5: "currentThread (updateCurrentThread None focus_kept) = None"
    by (simp add: focus_kept_current focus_kept_threads Map_first_value_def)
  from stop_details_thread_preferred_iff_truthy
    [where d = "stopped_at 1" and s = three_threads and i = 1 and a = 0] A_running
  have w6: "currentThread (updateCurrentThread (Some (stopped_at 1)) three_threads) = None"
    by (simp add: named truthy_num_def three_threads_threads)
  from stop_details_thread_preferred_iff_truthy
    [where d = "stopped_at 2" and s = three_threads and i = 2 and a = 1] B_stopped
  have w7: "currentThread (updateCurrentThread (Some (stopped_at 2)) three_threads) = Some 1"
    by (simp add: named truthy_num_def three_threads_threads)
  from stop_details_thread_preferred_iff_truthy
    [where d = "stopped_at 7" and s = first_stopped and i = 7] A_stopped
  have w8: "currentThread (updateCurrentThread (Some (stopped_at 7)) first_stopped) = Some 0"
    by (simp add: named truthy_num_def first_stopped_threads Map_first_value_def)
  from w1 w2 w3 w4 w5 w6 w7 w8 show ?thesis by (intro conjI)
qed

text \<open>
  Claim C10 as stated fails where it says that a stopped event naming thread id 0 never
  moves focus to that thread: in a session without a current thread whose only thread
  has id 0, the refresh after such an event makes that thread the current one, as the
  first thread of the map.
\<close>

theorem stopped_thread_zero_gets_focus:
  "currentThread (new_DebugSession ''session'' 0) = None
 \<and> preserveFocusHint (stopped_at 0) = None
 \<and> threadId (stopped_at 0) = Some 0
 \<and> currentThread
      (run_steps
         [Event (StoppedEvent (stopped_at 0)),
          ThreadsResponse (Inr [raw_thread 0 ''main'']) (Some (stopped_at 0))]
         (new_DebugSession ''session'' 0)) = Some 0
 \<and> Map_get (threads
      (run_steps
         [Event (StoppedEvent (stopped_at 0)),
          ThreadsResponse (Inr [raw_thread 0 ''main'']) (Some (stopped_at 0))]
         (new_DebugSession ''session'' 0))) 0 = Some 0"
  by code_simp

section \<open>Refreshing the thread map\<close>

lemma loop_nextRef:
  "nextRef (updateThreads_loop ex sd rs s) = nextRef s + length (filter (unknown_id ex) rs)"
  by (induction rs arbitrary: s) (simp_all add: Let_def unknown_id_def split: option.splits)

lemma loop_absent:
  "i \<notin> thread_id ` set rs \<Longrightarrow>
   Map_get (threads (updateThreads_loop ex sd rs s)) i = Map_get (threads s) i"
  by (induction rs arbitrary: s) (auto simp: Let_def update_conv' split: option.splits)

lemma loop_known:
  "i \<in> thread_id ` set rs \<Longrightarrow> Map_get ex i = Some a \<Longrightarrow>
   Map_get (threads (updateThreads_loop ex sd rs s)) i = Some a"
proof (induction rs arbitrary: s)
  case Nil
  then show ?case by simp
next
  case (Cons r rs)
  show ?case
  proof (cases "i \<in> thread_id ` set rs")
    case True
    then show ?thesis using Cons.IH Cons.prems(2) by (simp add: Let_def)
  next
    case False
    with Cons.prems have i: "thread_id r = i" by auto
    show ?thesis
      using Cons.prems(2) by (simp add: Let_def i loop_absent [OF False] update_conv')
  qed
qed

lemma loop_unknown:
  "i \<in> thread_id ` set rs \<Longrightarrow> Map_get ex i = None \<Longrightarrow>
   \<exists>a. Map_get (threads (updateThreads_loop ex sd rs s)) i = Some a
       \<and> nextRef s \<le> a \<and> a < nextRef (updateThreads_loop ex sd rs s)"
proof (induction rs arbitrary: s)
  case Nil
  then show ?case by simp
next
  case (Cons r rs)
  let ?details = "case sd of Some d \<Rightarrow> if threadId d = Some (thread_id r) then Some d else None
                  | None \<Rightarrow> None"
  show ?case
  proof (cases "i \<in> thread_id ` set rs")
    case True
    define s1 where "s1 = (case Map_get ex (thread_id r) of
              Some a \<Rightarrow>
                s\<lparr>threads := Map_set (threads s) (thread_id r) a,
                  heap := (heap s)(a := thread_update r ?details (heap s a))\<rparr>
            | None \<Rightarrow>
                s\<lparr>threads := Map_set (threads s) (thread_id r) (nextRef s),
                  heap := (heap s)(nextRef s := thread_update r ?details no_thread),
                  nextRef := Suc (nextRef s)\<rparr>)"
    have step: "updateThreads_loop ex sd (r # rs) s = updateThreads_loop ex sd rs s1"
      by (simp add: s1_def Let_def)
    have le: "nextRef s \<le> nextRef s1"
      by (simp add: s1_def split: option.splits)
    from Cons.IH [OF True Cons.prems(2), of s1] obtain a where
      "Map_get (threads (updateThreads_loop ex sd rs s1)) i = Some a"
      "nextRef s1 \<le> a" "a < nextRef (updateThreads_loop ex sd rs s1)"
      by blast
    with le show ?thesis unfolding step by auto
  next
    case False
    with Cons.prems have i: "thread_id r = i" by auto
    show ?thesis
      using Cons.prems(2)
      by (simp add: Let_def i loop_absent [OF False] update_conv' loop_nextRef)
  qed
qed

text \<open>
  Claim C7. A refresh keeps, for every reported thread id the map knew before, the very
  object (the same reference) the map held for it, so that whatever is attached to that
  object is still attached to the thread of the new map; for a reported id the map did
  not know, the new map holds an object constructed during this refresh (its reference
  did not exist before); an id that is not reported is not in the new map. An object is
  constructed exactly for the reported threads whose id was unknown, one for each.
\<close>

theorem updateThreads_preserves_identity:
  "(\<forall>i a. i \<in> thread_id ` set rs \<and> Map_get (threads s) i = Some a \<longrightarrow>
           Map_get (threads (updateThreads rs sd s)) i = Some a)
 \<and> (\<forall>i. i \<in> thread_id ` set rs \<and> Map_get (threads s) i = None \<longrightarrow>
           (\<exists>a. Map_get (threads (updateThreads rs sd s)) i = Some a
                \<and> nextRef s \<le> a \<and> a < nextRef (updateThreads rs sd s)))
 \<and> (\<forall>i. i \<notin> thread_id ` set rs \<longrightarrow> Map_get (threads (updateThreads rs sd s)) i = None)
 \<and> nextRef (updateThreads rs sd s) = nextRef s + length (filter (unknown_id (threads s)) rs)"
proof -
  let ?s0 = "s\<lparr>threads := []\<rparr>"
  have known: "\<And>i a. i \<in> thread_id ` set rs \<Longrightarrow> Map_get (threads s) i = Some a \<Longrightarrow>
           Map_get (threads (updateThreads rs sd s)) i = Some a"
    by (simp add: updateThreads_def updateCurrentThread_frame loop_known)
  have unknown: "\<And>i. i \<in> thread_id ` set rs \<Longrightarrow> Map_get (threads s) i = None \<Longrightarrow>
           (\<exists>a. Map_get (threads (updateThreads rs sd s)) i = Some a
                \<and> nextRef s \<le> a \<and> a < nextRef (updateThreads rs sd s))"
    using loop_unknown [of _ rs "threads s" sd ?s0]
    by (simp add: updateThreads_def updateCurrentThread_frame)
  have absent: "\<And>i. i \<notin> thread_id ` set rs \<Longrightarrow>
           Map_get (threads (updateThreads rs sd s)) i = None"
    by (simp add: updateThreads_def updateCurrentThread_frame loop_absent)
  have count: "nextRef (updateThreads rs sd s) =
           nextRef s + length (filter (unknown_id (threads s)) rs)"
    by (simp add: updateThreads_def updateCurrentThread_frame loop_nextRef)
  from known unknown absent count show ?thesis by blast
qed

theorem updateThreads_preserves_identity_witness:
  "Map_get (threads (updateThreads [raw_thread 2 ''B'', raw_thread 4 ''D''] None three_threads)) 2
     = Some 1
 \<and> Map_get (threads (updateThreads [raw_thread 2 ''B'', raw_thread 4 ''D''] None three_threads)) 4
     = Some 3
 \<and> Map_get (threads (updateThreads [raw_thread 2 ''B'', raw_thread 4 ''D''] None three_threads)) 1
     = None
 \<and> nextRef (updateThreads [raw_thread 2 ''B'', raw_thread 4 ''D''] None three_threads) = 4"
proof -
  let ?rs = "[raw_thread 2 ''B'', raw_thread 4 ''D'']"
  let ?s = "updateThreads ?rs None three_threads"
  have known: "2 \<in> thread_id ` set ?rs \<and> Map_get (threads three_threads) 2 = Some 1"
    and unknown: "4 \<in> thread_id ` set ?rs \<and> Map_get (threads three_threads) 4 = None"
    and dropped: "1 \<notin> thread_id ` set ?rs"
    by (simp_all add: raw_thread_def three_threads_threads)
  have fresh: "length (filter (unknown_id (threads three_threads)) ?rs) = 1"
    by (simp add: unknown_id_def three_threads_threads raw_thread_def)
  note refresh = updateThreads_preserves_identity [of ?rs three_threads None]
  from refresh known have two: "Map_get (threads ?s) 2 = Some 1" by blast
  from refresh dropped have one: "Map_get (threads ?s) 1 = None" by blast
  from refresh fresh have count: "nextRef ?s = 4" by (simp add: three_threads_nextRef)
  from refresh unknown obtain a where "Map_get (threads ?s) 4 = Some a" "nextRef three_threads \<le> a"
    "a < nextRef ?s"
    by blast
  with count have four: "Map_get (threads ?s) 4 = Some 3"
    by (simp add: three_threads_nextRef)
  from two four one count show ?thesis by simp
qed

section \<open>Pausing and continuing all threads\<close>

lemma Promise_all_swallow: "Promise_all (map (\<lambda>a. fst (swallow (answer a))) as) = Inr ()"
  by (induction as) (simp_all add: swallow_def split: sum.splits)

lemma logged_swallow:
  "concat (map (\<lambda>a. snd (swallow (answer a))) as) =
   concat (map (\<lambda>a. case answer a of Inl e \<Rightarrow> [e] | Inr u \<Rightarrow> []) as)"
  by (induction as) (simp_all add: swallow_def split: sum.splits)

lemma all_threads_in_result:
  "outcome (all_threads_in st answer s) = Inr ()"
  "issued (all_threads_in st answer s) =
     filter (\<lambda>a. thread_state (heap s a) = st) (map snd (threads s))"
  "logged (all_threads_in st answer s) =
     concat (map (\<lambda>a. case answer a of Inl e \<Rightarrow> [e] | Inr u \<Rightarrow> [])
       (issued (all_threads_in st answer s)))"
  "length (issued (all_threads_in st answer s)) =
     length (filter (\<lambda>(i, a). thread_state (heap s a) = st) (threads s))"
  by (simp_all add: all_threads_in_def Let_def comp_def Promise_all_swallow logged_swallow
        getThreadsForState_def getThreads_def filter_map case_prod_unfold)

text \<open>
  Claim C6. \<^verbatim>\<open>pauseAll\<close> issues its requests for the threads of the map that are Running,
  one for each entry of the map in that state and for no other thread, and \<^verbatim>\<open>continueAll\<close>
  does so for the threads that are Stopped. All requests are issued whatever the adapter
  answers to any of them; every failure is written to the console, and the promise of
  the operation is fulfilled in all cases, never rejected.
\<close>

theorem pauseAll_continueAll_swallow_failures:
  "outcome (pauseAll answer s) = Inr ()
 \<and> issued (pauseAll answer s) =
     filter (\<lambda>a. thread_state (heap s a) = Running) (map snd (threads s))
 \<and> length (issued (pauseAll answer s)) =
     length (filter (\<lambda>(i, a). thread_state (heap s a) = Running) (threads s))
 \<and> logged (pauseAll answer s) =
     concat (map (\<lambda>a. case answer a of Inl e \<Rightarrow> [e] | Inr u \<Rightarrow> [])
       (issued (pauseAll answer s)))
 \<and> outcome (continueAll answer s) = Inr ()
 \<and> issued (continueAll answer s) =
     filter (\<lambda>a. thread_state (heap s a) = Stopped) (map snd (threads s))
 \<and> length (issued (continueAll answer s)) =
     length (filter (\<lambda>(i, a). thread_state (heap s a) = Stopped) (threads s))
 \<and> logged (continueAll answer s) =
     concat (map (\<lambda>a. case answer a of Inl e \<Rightarrow> [e] | Inr u \<Rightarrow> [])
       (issued (continueAll answer s)))"
  unfolding pauseAll_def continueAll_def
  using all_threads_in_result [of Running answer s] all_threads_in_result [of Stopped answer s]
  by simp

text \<open>Over the threads A (Running), B (Stopped) and C (Running), with the request for A
  failing: two requests, for A and for C, one logged failure, and a fulfilled promise.\<close>

theorem pauseAll_continueAll_swallow_failures_witness:
  "issued (pauseAll (failing_at 0) three_threads) = [0, 2]
 \<and> length (issued (pauseAll (failing_at 0) three_threads)) = 2
 \<and> logged (pauseAll (failing_at 0) three_threads) = [Failure (Some ''timeout'')]
 \<and> outcome (pauseAll (failing_at 0) three_threads) = Inr ()
 \<and> issued (continueAll (failing_at 0) three_threads) = [1]"
  using pauseAll_continueAll_swallow_failures [of "failing_at 0" three_threads]
  by (simp add: three_threads_threads three_threads_A three_threads_B three_threads_C
        thread_state_def failing_at_def)

section \<open>Removing a session\<close>

lemma Map_first_key_Cons:
  "m \<noteq> [] \<Longrightarrow> \<exists>k r rest. m = (k, r) # rest \<and> Map_first_key m = Some k"
  by (cases m) (auto simp: Map_first_key_def)

lemma first_key_after_delete:
  assumes "Map_delete m sid \<noteq> []"
  obtains k r where "Map_first_key (Map_delete m sid) = Some k"
    and "Map_get (Map_delete m sid) k = Some r" and "k \<noteq> sid"
proof -
  from Map_first_key_Cons [OF assms] obtain k r rest where
    eq: "Map_delete m sid = (k, r) # rest" and fk: "Map_first_key (Map_delete m sid) = Some k"
    by blast
  have "k \<in> fst ` set (Map_delete m sid)" by (simp add: eq)
  then have "k \<noteq> sid" using delete_notin_dom [of sid m] by auto
  moreover have "Map_get (Map_delete m sid) k = Some r" by (simp add: eq)
  ultimately show thesis using fk that by blast
qed

lemma setActiveDebugSession_fields:
  "activeDebugSessionId (setActiveDebugSession x m) =
     (if truthy_str x \<and> (case x of Some i \<Rightarrow> Map_get (sessions m) i = None | None \<Rightarrow> False)
      then activeDebugSessionId m else x)"
  "sessions (setActiveDebugSession x m) = sessions m"
  by (auto simp: setActiveDebugSession_def Let_def emit_def find_session_def split: option.splits)

lemma remove_sessions: "sessions (remove sid m) = Map_delete (sessions m) sid"
  by (simp add: remove_def Let_def setActiveDebugSession_fields)

lemma remove_fields:
  "activeDebugSessionId (remove sid m) =
     (if truthy_str (activeDebugSessionId m) \<and> activeDebugSessionId m = Some sid
      then (if Map_delete (sessions m) sid \<noteq> []
            then (if truthy_str (Map_first_key (Map_delete (sessions m) sid)) \<and>
                     (case Map_first_key (Map_delete (sessions m) sid) of
                        Some i \<Rightarrow> Map_get (Map_delete (sessions m) sid) i = None
                      | None \<Rightarrow> False)
                  then activeDebugSessionId m
                  else Map_first_key (Map_delete (sessions m) sid))
            else None)
      else activeDebugSessionId m)"
  by (auto simp: remove_def Let_def setActiveDebugSession_fields split: option.splits)

lemma remove_cong:
  assumes "activeDebugSessionId m' = activeDebugSessionId m" and "sessions m' = sessions m"
  shows "activeDebugSessionId (remove sid m') = activeDebugSessionId (remove sid m)"
    and "sessions (remove sid m') = sessions (remove sid m)"
  unfolding remove_fields remove_sessions by (simp_all only: assms)

lemma remove_active_promotes:
  assumes "activeDebugSessionId m = Some sid" and "sid \<noteq> []"
    and "Map_delete (sessions m) sid \<noteq> []"
  shows "\<exists>k r. activeDebugSessionId (remove sid m) = Some k \<and> k \<noteq> sid
      \<and> Map_first_key (sessions (remove sid m)) = Some k
      \<and> Map_get (sessions (remove sid m)) k = Some r"
proof -
  from first_key_after_delete [OF assms(3)] obtain k r where
    k: "Map_first_key (Map_delete (sessions m) sid) = Some k"
       "Map_get (Map_delete (sessions m) sid) k = Some r" "k \<noteq> sid"
    by blast
  have "activeDebugSessionId (remove sid m) = Some k"
    using assms k by (simp add: remove_fields truthy_str_def)
  with k show ?thesis by (simp add: remove_sessions)
qed

lemma remove_active_last:
  assumes "activeDebugSessionId m = Some sid" and "sid \<noteq> []"
    and "Map_delete (sessions m) sid = []"
  shows "activeDebugSessionId (remove sid m) = None"
  using assms by (simp add: remove_fields truthy_str_def)

lemma remove_other:
  assumes "activeDebugSessionId m \<noteq> Some sid"
  shows "activeDebugSessionId (remove sid m) = activeDebugSessionId m"
  using assms by (simp add: remove_fields)

lemma doDestroy_remove:
  "activeDebugSessionId (doDestroy session m) =
     activeDebugSessionId (remove (sessionId (sessionHeap m session)) m)"
  "sessions (doDestroy session m) = sessions (remove (sessionId (sessionHeap m session)) m)"
proof -
  let ?sid = "sessionId (sessionHeap m session)"
  let ?m2 = "emit (Dispose session) (emit (ServiceStop ?sid) m)"
  have d: "doDestroy session m = emit (DidDestroy session) (remove ?sid ?m2)"
    by (simp add: doDestroy_def Let_def)
  have f: "activeDebugSessionId ?m2 = activeDebugSessionId m" "sessions ?m2 = sessions m"
    by (simp_all add: emit_def)
  show "activeDebugSessionId (doDestroy session m) = activeDebugSessionId (remove ?sid m)"
    unfolding d using remove_cong(1) [OF f] by (simp add: emit_def)
  show "sessions (doDestroy session m) = sessions (remove ?sid m)"
    unfolding d using remove_cong(2) [OF f] by (simp add: emit_def)
qed

lemma currentSession_cong:
  "activeDebugSessionId m' = activeDebugSessionId m \<Longrightarrow> sessions m' = sessions m \<Longrightarrow>
   currentSession m' = currentSession m"
  by (simp add: currentSession_def split: option.splits)

lemma remove_active_promotes_current:
  assumes ids: "\<forall>k \<in> fst ` set (sessions m). k \<noteq> []"
    and "activeDebugSessionId m = Some sid" and "sid \<noteq> []"
    and "Map_delete (sessions m) sid \<noteq> []"
  shows "\<exists>k r. Map_first_key (Map_delete (sessions m) sid) = Some k \<and> k \<noteq> sid
      \<and> activeDebugSessionId (remove sid m) = Some k
      \<and> Map_get (sessions (remove sid m)) k = Some r
      \<and> currentSession (remove sid m) = Some r"
proof -
  from remove_active_promotes [OF assms(2-4)] obtain k r where
    k: "activeDebugSessionId (remove sid m) = Some k" "k \<noteq> sid"
       "Map_first_key (sessions (remove sid m)) = Some k"
       "Map_get (sessions (remove sid m)) k = Some r"
    by blast
  from k(4) have "k \<in> fst ` set (Map_delete (sessions m) sid)"
    by (metis remove_sessions domI dom_map_of_conv_image_fst)
  with ids have "k \<noteq> []"
    using dom_delete_subset [of sid "sessions m"] by blast
  with k have "currentSession (remove sid m) = Some r"
    by (simp add: currentSession_def truthy_str_def)
  with k show ?thesis by (simp add: remove_sessions)
qed

lemma remove_other_current:
  assumes "activeDebugSessionId m \<noteq> Some sid"
  shows "currentSession (remove sid m) = currentSession m"
proof (cases "activeDebugSessionId m")
  case None
  with assms show ?thesis by (simp add: currentSession_def remove_other)
next
  case (Some a)
  with assms have "a \<noteq> sid" by simp
  with Some assms show ?thesis
    by (simp add: currentSession_def remove_other remove_sessions)
qed

lemma doDestroy_current:
  "currentSession (doDestroy session m) =
     currentSession (remove (sessionId (sessionHeap m session)) m)"
  by (rule currentSession_cong) (simp_all add: doDestroy_remove)

text \<open>
  Claim C8, as amended. Let every registered session id and the active session id
  \<open>sid\<close> be non-empty strings. Removing \<open>sid\<close> while another session remains makes a
  remaining session the active one: the active id becomes the first key of the map,
  which is not \<open>sid\<close>, and the current session of the manager is the session registered
  under it. Removing \<open>sid\<close> when no session remains clears the active id, and there is
  no current session. Removing a session that is not the active one leaves the active
  id and the current session as they are. \<^verbatim>\<open>doDestroy\<close> changes the map, the active id
  and the current session exactly as removing the id of the destroyed session does.
\<close>

theorem remove_active_session:
  "((\<forall>k \<in> fst ` set (sessions m). k \<noteq> []) \<and> activeDebugSessionId m = Some sid \<and> sid \<noteq> []
      \<and> Map_delete (sessions m) sid \<noteq> [] \<longrightarrow>
      (\<exists>k r. Map_first_key (Map_delete (sessions m) sid) = Some k \<and> k \<noteq> sid
            \<and> activeDebugSessionId (remove sid m) = Some k
            \<and> Map_get (sessions (remove sid m)) k = Some r
            \<and> currentSession (remove sid m) = Some r))
 \<and> (activeDebugSessionId m = Some sid \<and> sid \<noteq> [] \<and> Map_delete (sessions m) sid = [] \<longrightarrow>
      activeDebugSessionId (remove sid m) = None \<and> currentSession (remove sid m) = None)
 \<and> (activeDebugSessionId m \<noteq> Some sid \<longrightarrow>
      activeDebugSessionId (remove sid m) = activeDebugSessionId m
      \<and> currentSession (remove sid m) = currentSession m)
 \<and> sessions (remove sid m) = Map_delete (sessions m) sid
 \<and> activeDebugSessionId (doDestroy session m) =
     activeDebugSessionId (remove (sessionId (sessionHeap m session)) m)
 \<and> sessions (doDestroy session m) = sessions (remove (sessionId (sessionHeap m session)) m)
 \<and> currentSession (doDestroy session m) =
     currentSession (remove (sessionId (sessionHeap m session)) m)"
proof -
  have promote: "(\<forall>k \<in> fst ` set (sessions m). k \<noteq> []) \<and> activeDebugSessionId m = Some sid
      \<and> sid \<noteq> [] \<and> Map_delete (sessions m) sid \<noteq> [] \<longrightarrow>
      (\<exists>k r. Map_first_key (Map_delete (sessions m) sid) = Some k \<and> k \<noteq> sid
            \<and> activeDebugSessionId (remove sid m) = Some k
            \<and> Map_get (sessions (remove sid m)) k = Some r
            \<and> currentSession (remove sid m) = Some r)"
    using remove_active_promotes_current [of m sid] by blast
  have last: "activeDebugSessionId m = Some sid \<and> sid \<noteq> [] \<and> Map_delete (sessions m) sid = [] \<longrightarrow>
      activeDebugSessionId (remove sid m) = None \<and> currentSession (remove sid m) = None"
    using remove_active_last [of m sid] by (auto simp: currentSession_def truthy_str_def)
  have other: "activeDebugSessionId m \<noteq> Some sid \<longrightarrow>
      activeDebugSessionId (remove sid m) = activeDebugSessionId m
      \<and> currentSession (remove sid m) = currentSession m"
    using remove_other [of m sid] remove_other_current [of m sid] by blast
  show ?thesis
    by (rule conjI [OF promote conjI [OF last conjI [OF other conjI [OF remove_sessions
          conjI [OF doDestroy_remove(1) conjI [OF doDestroy_remove(2) doDestroy_current]]]]]])
qed

theorem remove_active_session_witness:
  "activeDebugSessionId (remove ''one'' two_sessions) = Some ''two''
 \<and> currentSession (remove ''one'' two_sessions) = Some 1
 \<and> activeDebugSessionId (remove ''two'' (remove ''one'' two_sessions)) = None
 \<and> currentSession (remove ''two'' (remove ''one'' two_sessions)) = None
 \<and> activeDebugSessionId (remove ''two'' two_sessions) = Some ''one''
 \<and> currentSession (remove ''two'' two_sessions) = Some 0"
proof -
  let ?m = "remove ''one'' two_sessions"
  have left: "sessions ?m = [(''two'', 1)]"
    using remove_active_session [of two_sessions "''one''"]
    by (simp add: two_sessions_sessions)
  have promote: "(\<forall>k \<in> fst ` set (sessions two_sessions). k \<noteq> [])
      \<and> activeDebugSessionId two_sessions = Some ''one'' \<and> ''one'' \<noteq> []
      \<and> Map_delete (sessions two_sessions) ''one'' \<noteq> []"
    by (simp add: two_sessions_sessions two_sessions_active)
  have first: "Map_first_key (Map_delete (sessions two_sessions) ''one'') = Some ''two''"
    by (simp add: two_sessions_sessions Map_first_key_def)
  from remove_active_session [of two_sessions "''one''" 0]
  have "(\<forall>k \<in> fst ` set (sessions two_sessions). k \<noteq> [])
      \<and> activeDebugSessionId two_sessions = Some ''one'' \<and> ''one'' \<noteq> []
      \<and> Map_delete (sessions two_sessions) ''one'' \<noteq> [] \<longrightarrow>
      (\<exists>k r. Map_first_key (Map_delete (sessions two_sessions) ''one'') = Some k
            \<and> k \<noteq> ''one''
            \<and> activeDebugSessionId ?m = Some k
            \<and> Map_get (sessions ?m) k = Some r
            \<and> currentSession ?m = Some r)"
    by (elim conjE) assumption
  from this promote
  have "\<exists>k r. Map_first_key (Map_delete (sessions two_sessions) ''one'') = Some k
            \<and> k \<noteq> ''one''
            \<and> activeDebugSessionId ?m = Some k
            \<and> Map_get (sessions ?m) k = Some r
            \<and> currentSession ?m = Some r"
    by (rule mp)
  then obtain k r where
    kr: "Map_first_key (Map_delete (sessions two_sessions) ''one'') = Some k"
      "activeDebugSessionId ?m = Some k" "Map_get (sessions ?m) k = Some r"
      "currentSession ?m = Some r"
    by (elim exE conjE)
  from kr(1) first have k: "k = ''two''" by simp
  from kr(3) have r: "r = 1" by (simp add: k left)
  from kr(2) have one: "activeDebugSessionId ?m = Some ''two''" by (simp add: k)
  from kr(4) have one': "currentSession ?m = Some 1" by (simp add: r)
  have last: "activeDebugSessionId ?m = Some ''two'' \<and> ''two'' \<noteq> []
      \<and> Map_delete (sessions ?m) ''two'' = []"
    by (simp add: one left)
  from remove_active_session [of ?m "''two''" 0]
  have "activeDebugSessionId ?m = Some ''two'' \<and> ''two'' \<noteq> []
      \<and> Map_delete (sessions ?m) ''two'' = [] \<longrightarrow>
      activeDebugSessionId (remove ''two'' ?m) = None
      \<and> currentSession (remove ''two'' ?m) = None"
    by (elim conjE) assumption
  from this last
  have two: "activeDebugSessionId (remove ''two'' ?m) = None
      \<and> currentSession (remove ''two'' ?m) = None"
    by (rule mp)
  have other: "activeDebugSessionId two_sessions \<noteq> Some ''two''"
    by (simp add: two_sessions_active)
  have current: "currentSession two_sessions = Some 0"
    by (simp add: currentSession_def truthy_str_def two_sessions_active two_sessions_sessions)
  from remove_active_session [of two_sessions "''two''" 0]
  have "activeDebugSessionId two_sessions \<noteq> Some ''two'' \<longrightarrow>
      activeDebugSessionId (remove ''two'' two_sessions) = activeDebugSessionId two_sessions
      \<and> currentSession (remove ''two'' two_sessions) = currentSession two_sessions"
    by (elim conjE) assumption
  from this other
  have "activeDebugSessionId (remove ''two'' two_sessions) = activeDebugSessionId two_sessions
      \<and> currentSession (remove ''two'' two_sessions) = currentSession two_sessions"
    by (rule mp)
  then have three: "activeDebugSessionId (remove ''two'' two_sessions) = Some ''one''
      \<and> currentSession (remove ''two'' two_sessions) = Some 0"
    by (simp add: two_sessions_active current)
  from one one' two three show ?thesis by simp
qed

text \<open>
  Claim C8 as stated fails for the empty string as a session id: when the session
  \<^verbatim>\<open>one\<close> is active and the only other session has the id \<^verbatim>\<open>''\<close>, removing \<^verbatim>\<open>one\<close>
  sets the active id to the empty string, which the manager takes for no active
  session, so that a session remains and none is active.
\<close>

theorem remove_active_session_empty_id:
  "activeDebugSessionId empty_id_sessions = Some ''one''
 \<and> currentSession empty_id_sessions = Some 0
 \<and> sessions (remove ''one'' empty_id_sessions) = [([], 1)]
 \<and> activeDebugSessionId (remove ''one'' empty_id_sessions) = Some []
 \<and> currentSession (remove ''one'' empty_id_sessions) = None"
  by code_simp

section \<open>Creating a session with an unsupported request kind\<close>

lemma launchOrAttach_unsupported:
  assumes "Map_get (configurations m (configuration (sessionHeap m session))) ''request'' \<noteq>
      Some (JStr ''attach'')"
    and "Map_get (configurations m (configuration (sessionHeap m session))) ''request'' \<noteq>
      Some (JStr ''launch'')"
  shows "launchOrAttach adapter session m =
     (Inl (UnsupportedRequest
        (Map_get (configurations m (configuration (sessionHeap m session))) ''request'')), m)"
  using assms by (simp add: launchOrAttach_def Let_def)

text \<open>
  Claim C3, as amended. For a configuration whose request kind is neither \<^verbatim>\<open>launch\<close> nor
  \<^verbatim>\<open>attach\<close>, \<^verbatim>\<open>launchOrAttach\<close> fails with the unsupported-request error and changes
  nothing, so that no request is sent to the adapter. \<^verbatim>\<open>create\<close> itself does not
  reject: its promise is fulfilled with the new session, and the failure is that of the
  \<^verbatim>\<open>launchOrAttach\<close> it started without awaiting it. All that \<^verbatim>\<open>create\<close> does to the
  outside is to fire the pre-create and the create event; it registers the session in
  the map of sessions, leaves the active session id as it was and writes no
  configuration object.
\<close>

theorem create_unsupported_request:
  assumes "Map_get (configurations m config) ''request'' \<noteq> Some (JStr ''attach'')"
    and "Map_get (configurations m config) ''request'' \<noteq> Some (JStr ''launch'')"
  shows "launching (create adapter sid config m) =
           Inl (UnsupportedRequest (Map_get (configurations m config) ''request''))
   \<and> returned (create adapter sid config m) = Inr (nextSession m)
   \<and> trace (manager (create adapter sid config m)) =
       trace m @ [PreCreate sid, DidCreate (nextSession m)]
   \<and> activeDebugSessionId (manager (create adapter sid config m)) = activeDebugSessionId m
   \<and> Map_get (sessions (manager (create adapter sid config m))) sid = Some (nextSession m)
   \<and> configurations (manager (create adapter sid config m)) = configurations m
   \<and> launchOrAttach adapter session
       (m\<lparr>sessionHeap := (sessionHeap m)(session := new_DebugSession sid config)\<rparr>) =
       (Inl (UnsupportedRequest (Map_get (configurations m config) ''request'')),
        m\<lparr>sessionHeap := (sessionHeap m)(session := new_DebugSession sid config)\<rparr>)"
proof -
  let ?m3 = "emit (DidCreate (nextSession m))
        ((emit (PreCreate sid) m)
           \<lparr>sessionHeap := (sessionHeap m)(nextSession m := new_DebugSession sid config),
            nextSession := Suc (nextSession m),
            sessions := Map_set (sessions m) sid (nextSession m)\<rparr>)"
  have cfg: "configurations ?m3 (configuration (sessionHeap ?m3 (nextSession m))) =
      configurations m config"
    by (simp add: emit_def new_DebugSession_def)
  have la: "launchOrAttach adapter (nextSession m) ?m3 =
      (Inl (UnsupportedRequest (Map_get (configurations m config) ''request'')), ?m3)"
    using launchOrAttach_unsupported [of ?m3 "nextSession m" adapter] assms
    unfolding cfg by simp
  have c: "create adapter sid config m =
     \<lparr>returned = Inr (nextSession m),
      launching = Inl (UnsupportedRequest (Map_get (configurations m config) ''request'')),
      manager = ?m3\<rparr>"
    using la by (simp add: create_def Let_def emit_def)
  have direct: "launchOrAttach adapter session
       (m\<lparr>sessionHeap := (sessionHeap m)(session := new_DebugSession sid config)\<rparr>) =
       (Inl (UnsupportedRequest (Map_get (configurations m config) ''request'')),
        m\<lparr>sessionHeap := (sessionHeap m)(session := new_DebugSession sid config)\<rparr>)"
    using assms by (simp add: launchOrAttach_def Let_def new_DebugSession_def)
  show ?thesis unfolding c using direct by (simp add: emit_def update_conv')
qed

lemma bogus_start_configuration: "configurations bogus_start 0 = bogus_configuration"
  by (simp add: bogus_start_def with_configuration_def)

lemma bogus_start_fields:
  "trace bogus_start = []" "activeDebugSessionId bogus_start = None" "nextSession bogus_start = 0"
  by (simp_all add: bogus_start_def with_configuration_def new_DebugSessionManager_def)

theorem create_unsupported_request_witness:
  "launching (create always_succeeds ''s1'' 0 bogus_start) =
     Inl (UnsupportedRequest (Some (JStr ''bogus'')))
 \<and> trace (manager (create always_succeeds ''s1'' 0 bogus_start)) =
     [PreCreate ''s1'', DidCreate 0]
 \<and> activeDebugSessionId (manager (create always_succeeds ''s1'' 0 bogus_start)) = None
 \<and> Map_get (sessions (manager (create always_succeeds ''s1'' 0 bogus_start))) ''s1'' = Some 0"
proof -
  have kind: "Map_get (configurations bogus_start 0) ''request'' = Some (JStr ''bogus'')"
    by (simp add: bogus_start_configuration bogus_configuration_def)
  have a: "Map_get (configurations bogus_start 0) ''request'' \<noteq> Some (JStr ''attach'')"
    and l: "Map_get (configurations bogus_start 0) ''request'' \<noteq> Some (JStr ''launch'')"
    by (simp_all add: kind)
  from create_unsupported_request [OF a l, of always_succeeds "''s1''"]
  show ?thesis by (simp add: kind bogus_start_fields)
qed

text \<open>
  Claim C3 as stated fails where it says that \<^verbatim>\<open>create\<close> rejects: for the request kind
  \<^verbatim>\<open>bogus\<close> its promise is fulfilled with the session it has registered.
\<close>

theorem create_unsupported_request_not_rejected:
  "returned (create always_succeeds ''s1'' 0 bogus_start) = Inr 0
 \<and> find_session ''s1'' (manager (create always_succeeds ''s1'' 0 bogus_start)) = Some 0"
  by code_simp

section \<open>Restarting a session\<close>

lemma setActiveDebugSession_heap:
  "sessionHeap (setActiveDebugSession x m) = sessionHeap m"
  "configurations (setActiveDebugSession x m) = configurations m"
  by (simp_all add: setActiveDebugSession_def Let_def emit_def)

lemma remove_heap:
  "sessionHeap (remove sid m) = sessionHeap m"
  "configurations (remove sid m) = configurations m"
  by (simp_all add: remove_def Let_def setActiveDebugSession_heap)

lemma doDestroy_heap:
  "sessionHeap (doDestroy session m) = sessionHeap m"
  "configurations (doDestroy session m) = configurations m"
  by (simp_all add: doDestroy_def Let_def emit_def remove_heap)

lemma destroy_each_heap:
  "sessionHeap (destroy_each es m) = sessionHeap m \<and>
   configurations (destroy_each es m) = configurations m"
  by (induction es m rule: destroy_each.induct) (simp_all add: doDestroy_heap)

lemma destroy_heap:
  "sessionHeap (destroy x m) = sessionHeap m"
  "configurations (destroy x m) = configurations m"
  by (simp_all add: destroy_def doDestroy_heap destroy_each_heap split: option.splits)

lemma onSessionInitializationFailed_heap:
  "sessionHeap (onSessionInitializationFailed session cause m) = sessionHeap m"
  "configurations (onSessionInitializationFailed session cause m) = configurations m"
  by (simp_all add: onSessionInitializationFailed_def Let_def emit_def destroy_heap)

lemma reconfiguredI:
  "config \<in> set configs \<Longrightarrow>
   sessionHeap m' =
     (sessionHeap m)(session := (sessionHeap m session)\<lparr>capabilities := caps\<rparr>) \<Longrightarrow>
   configurations m' = (configurations m)(configuration (sessionHeap m session) := config) \<Longrightarrow>
   reconfigured m m' session configs"
  unfolding reconfigured_def by blast

lemma reconfigured_same:
  "sessionHeap m' = sessionHeap m \<Longrightarrow> configurations m' = configurations m \<Longrightarrow>
   configurations m (configuration (sessionHeap m session)) \<in> set configs \<Longrightarrow>
   reconfigured m m' session configs"
  by (rule reconfiguredI [where config = "configurations m (configuration (sessionHeap m session))"
        and caps = "capabilities (sessionHeap m session)"]) simp_all

lemma session_initialize_cases:
  obtains (failed) f where "session_initialize adapter session args m =
        (Inl f, emit (Request session ''initialize'' args) m)"
  | (answered) body where "session_initialize adapter session args m =
        (Inr body, (emit (Request session ''initialize'' args) m)
           \<lparr>sessionHeap := (sessionHeap m)(session :=
              (sessionHeap m session)\<lparr>capabilities := (case body of Some b \<Rightarrow> b | None \<Rightarrow> [])\<rparr>)\<rparr>)"
proof (cases "adapter (trace (emit (Request session ''initialize'' args) m))")
  case (Inl f)
  then have "session_initialize adapter session args m =
        (Inl f, emit (Request session ''initialize'' args) m)"
    by (simp add: session_initialize_def sendRequest_def Let_def initialize_def emit_def)
  then show thesis by (rule failed)
next
  case (Inr body)
  then have "session_initialize adapter session args m =
        (Inr body, (emit (Request session ''initialize'' args) m)
           \<lparr>sessionHeap := (sessionHeap m)(session :=
              (sessionHeap m session)\<lparr>capabilities := (case body of Some b \<Rightarrow> b | None \<Rightarrow> [])\<rparr>)\<rparr>)"
    by (simp add: session_initialize_def sendRequest_def Let_def initialize_def emit_def)
  then show thesis by (rule answered)
qed

lemma attach_reconfigured:
  "reconfigured m (snd (attach adapter session args m)) session
     [configurations m (configuration (sessionHeap m session)),
      Object_assign (configurations m (configuration (sessionHeap m session)))
        [(''__restart'', JBool False)]]"
proof (cases rule: session_initialize_cases [of adapter session args m])
  case (failed f)
  then show ?thesis
    by (auto simp: attach_def emit_def intro!: reconfigured_same)
next
  case (answered body)
  show ?thesis
    by (rule reconfiguredI
          [where config = "Object_assign (configurations m (configuration (sessionHeap m session)))
                             [(''__restart'', JBool False)]"
             and caps = "case body of Some b \<Rightarrow> b | None \<Rightarrow> []"])
       (simp_all add: attach_def answered Let_def sendRequest_def emit_def
          onSessionInitializationFailed_heap split: sum.splits)
qed

lemma attach_fulfilled:
  "fst (attach adapter session args m) = Inr () \<Longrightarrow>
   configurations (snd (attach adapter session args m)) =
     (configurations m)(configuration (sessionHeap m session) :=
        Object_assign (configurations m (configuration (sessionHeap m session)))
          [(''__restart'', JBool False)])"
  by (cases rule: session_initialize_cases [of adapter session args m])
     (auto simp: attach_def Let_def sendRequest_def emit_def split: sum.splits)

lemma launch_reconfigured:
  "reconfigured m (snd (launch adapter session args m)) session
     [configurations m (configuration (sessionHeap m session)),
      Object_assign (configurations m (configuration (sessionHeap m session)))
        [(''__restart'', JBool False), (''noDebug'', JBool False)]]"
proof (cases rule: session_initialize_cases [of adapter session args m])
  case (failed f)
  then show ?thesis
    by (auto simp: launch_def emit_def intro!: reconfigured_same)
next
  case (answered body)
  show ?thesis
    by (rule reconfiguredI
          [where config = "Object_assign (configurations m (configuration (sessionHeap m session)))
                             [(''__restart'', JBool False), (''noDebug'', JBool False)]"
             and caps = "case body of Some b \<Rightarrow> b | None \<Rightarrow> []"])
       (simp_all add: launch_def answered Let_def sendRequest_def emit_def
          onSessionInitializationFailed_heap split: sum.splits)
qed

lemma launch_fulfilled:
  "fst (launch adapter session args m) = Inr () \<Longrightarrow>
   configurations (snd (launch adapter session args m)) =
     (configurations m)(configuration (sessionHeap m session) :=
        Object_assign (configurations m (configuration (sessionHeap m session)))
          [(''__restart'', JBool False), (''noDebug'', JBool False)])"
  by (cases rule: session_initialize_cases [of adapter session args m])
     (auto simp: launch_def Let_def sendRequest_def emit_def split: sum.splits)

lemma launchOrAttach_reconfigured:
  "reconfigured m (snd (launchOrAttach adapter session m)) session
     (restarted_configurations (configurations m (configuration (sessionHeap m session))))"
  using attach_reconfigured launch_reconfigured
  by (simp add: launchOrAttach_def Let_def restarted_configurations_def reconfigured_same)

lemma launchOrAttach_fulfilled:
  "fst (launchOrAttach adapter session m) = Inr () \<Longrightarrow>
   configurations (snd (launchOrAttach adapter session m))
     (configuration (sessionHeap m session)) =
     (if Map_get (configurations m (configuration (sessionHeap m session))) ''request'' =
           Some (JStr ''attach'')
      then Object_assign (configurations m (configuration (sessionHeap m session)))
             [(''__restart'', JBool False)]
      else Object_assign (configurations m (configuration (sessionHeap m session)))
             [(''__restart'', JBool False), (''noDebug'', JBool False)])"
  using attach_fulfilled launch_fulfilled
  by (auto simp: launchOrAttach_def Let_def split: if_splits)

lemma restart_cases:
  "(\<forall>f. adapter (trace (emit (Request session ''disconnect'' [(''restart'', JBool True)]) m)) =
          Inl f \<longrightarrow>
       restart adapter session restartArg m =
         (Inl (RequestFailed f),
          emit (Request session ''disconnect'' [(''restart'', JBool True)]) m))
 \<and> (\<forall>b. adapter (trace (emit (Request session ''disconnect'' [(''restart'', JBool True)]) m)) =
          Inr b \<longrightarrow>
       restart adapter session restartArg m =
         launchOrAttach adapter session
           (emit (Request session ''disconnect'' [(''restart'', JBool True)]) m))"
  by (simp add: restart_def session_disconnect_def sendRequest_def Let_def)

lemma restart_reconfigured:
  "reconfigured m (snd (restart adapter session restartArg m)) session
     (restarted_configurations (configurations m (configuration (sessionHeap m session))))"
proof (cases "adapter (trace (emit (Request session ''disconnect'' [(''restart'', JBool True)]) m))")
  case (Inl f)
  with restart_cases [of adapter session m restartArg]
  have "restart adapter session restartArg m =
         (Inl (RequestFailed f),
          emit (Request session ''disconnect'' [(''restart'', JBool True)]) m)"
    by simp
  then show ?thesis
    by (auto simp: emit_def restarted_configurations_def intro!: reconfigured_same)
next
  case (Inr b)
  let ?m0 = "emit (Request session ''disconnect'' [(''restart'', JBool True)]) m"
  from Inr restart_cases [of adapter session m restartArg]
  have r: "restart adapter session restartArg m = launchOrAttach adapter session ?m0"
    by simp
  have "reconfigured ?m0 (snd (launchOrAttach adapter session ?m0)) session
     (restarted_configurations (configurations ?m0 (configuration (sessionHeap ?m0 session))))"
    by (rule launchOrAttach_reconfigured)
  then show ?thesis unfolding r by (simp add: reconfigured_def emit_def)
qed

lemma restart_fulfilled:
  assumes "fst (restart adapter session restartArg m) = Inr ()"
  shows "configurations (snd (restart adapter session restartArg m))
       (configuration (sessionHeap m session)) =
     (if Map_get (configurations m (configuration (sessionHeap m session))) ''request'' =
           Some (JStr ''attach'')
      then Object_assign (configurations m (configuration (sessionHeap m session)))
             [(''__restart'', JBool False)]
      else Object_assign (configurations m (configuration (sessionHeap m session)))
             [(''__restart'', JBool False), (''noDebug'', JBool False)])"
proof (cases "adapter (trace (emit (Request session ''disconnect'' [(''restart'', JBool True)]) m))")
  case (Inl f)
  with restart_cases [of adapter session m restartArg] assms show ?thesis by simp
next
  case (Inr b)
  let ?m0 = "emit (Request session ''disconnect'' [(''restart'', JBool True)]) m"
  from Inr restart_cases [of adapter session m restartArg]
  have r: "restart adapter session restartArg m = launchOrAttach adapter session ?m0"
    by simp
  from assms have "fst (launchOrAttach adapter session ?m0) = Inr ()"
    by (simp add: r)
  from launchOrAttach_fulfilled [OF this] show ?thesis
    unfolding r by (simp add: emit_def)
qed

text \<open>
  Claim C9, as amended. \<^verbatim>\<open>restart\<close> first sends \<^verbatim>\<open>disconnect\<close> with \<^verbatim>\<open>restart: true\<close>. If
  that request fails, \<^verbatim>\<open>restart\<close> is rejected with the failure and does nothing else; if
  it succeeds, \<^verbatim>\<open>restart\<close> goes on exactly as \<^verbatim>\<open>launchOrAttach\<close> on the same session. In
  all cases the session keeps its session id and refers to the same configuration
  object. That object is mutated in place: its content is the old one, or the old one
  with \<^verbatim>\<open>__restart\<close> set to false for an attach configuration, or the old one with
  \<^verbatim>\<open>__restart\<close> and \<^verbatim>\<open>noDebug\<close> both set to false for a launch configuration, and it is
  the merged one whenever \<^verbatim>\<open>restart\<close> is fulfilled. So every field other than
  \<^verbatim>\<open>__restart\<close> and \<^verbatim>\<open>noDebug\<close> is unchanged, and for a configuration that is not a
  launch configuration every field other than \<^verbatim>\<open>__restart\<close> is.
\<close>

theorem restart_frame:
  "(\<forall>f. adapter (trace (emit (Request session ''disconnect'' [(''restart'', JBool True)]) m)) =
          Inl f \<longrightarrow>
       restart adapter session restartArg m =
         (Inl (RequestFailed f),
          emit (Request session ''disconnect'' [(''restart'', JBool True)]) m))
 \<and> (\<forall>b. adapter (trace (emit (Request session ''disconnect'' [(''restart'', JBool True)]) m)) =
          Inr b \<longrightarrow>
       restart adapter session restartArg m =
         launchOrAttach adapter session
           (emit (Request session ''disconnect'' [(''restart'', JBool True)]) m))
 \<and> sessionId (sessionHeap (snd (restart adapter session restartArg m)) session) =
     sessionId (sessionHeap m session)
 \<and> configuration (sessionHeap (snd (restart adapter session restartArg m)) session) =
     configuration (sessionHeap m session)
 \<and> configurations (snd (restart adapter session restartArg m))
       (configuration (sessionHeap m session)) \<in>
     set (restarted_configurations (configurations m (configuration (sessionHeap m session))))
 \<and> (fst (restart adapter session restartArg m) = Inr () \<longrightarrow>
      configurations (snd (restart adapter session restartArg m))
        (configuration (sessionHeap m session)) =
      (if Map_get (configurations m (configuration (sessionHeap m session))) ''request'' =
            Some (JStr ''attach'')
       then Object_assign (configurations m (configuration (sessionHeap m session)))
              [(''__restart'', JBool False)]
       else Object_assign (configurations m (configuration (sessionHeap m session)))
              [(''__restart'', JBool False), (''noDebug'', JBool False)]))
 \<and> (\<forall>k. k \<noteq> ''__restart'' \<and> k \<noteq> ''noDebug'' \<longrightarrow>
       Map_get (configurations (snd (restart adapter session restartArg m))
                  (configuration (sessionHeap m session))) k =
       Map_get (configurations m (configuration (sessionHeap m session))) k)
 \<and> (Map_get (configurations m (configuration (sessionHeap m session))) ''request'' \<noteq>
        Some (JStr ''launch'') \<longrightarrow>
      (\<forall>k. k \<noteq> ''__restart'' \<longrightarrow>
       Map_get (configurations (snd (restart adapter session restartArg m))
                  (configuration (sessionHeap m session))) k =
       Map_get (configurations m (configuration (sessionHeap m session))) k))"
proof -
  let ?m' = "snd (restart adapter session restartArg m)"
  let ?c = "configuration (sessionHeap m session)"
  let ?config = "configurations m ?c"
  have "reconfigured m ?m' session (restarted_configurations ?config)"
    by (rule restart_reconfigured)
  then obtain config caps where
    mem: "config \<in> set (restarted_configurations ?config)" and
    hp: "sessionHeap ?m' =
          (sessionHeap m)(session := (sessionHeap m session)\<lparr>capabilities := caps\<rparr>)" and
    cp: "configurations ?m' = (configurations m)(?c := config)"
    unfolding reconfigured_def by blast
  have cfg: "configurations ?m' ?c = config" by (simp add: cp)
  have sid: "sessionId (sessionHeap ?m' session) = sessionId (sessionHeap m session)"
    by (simp add: hp)
  have same: "configuration (sessionHeap ?m' session) = ?c"
    by (simp add: hp)
  have member: "configurations ?m' ?c \<in> set (restarted_configurations ?config)"
    using mem by (simp add: cfg)
  have fulfilled: "fst (restart adapter session restartArg m) = Inr () \<longrightarrow>
      configurations ?m' ?c =
      (if Map_get ?config ''request'' = Some (JStr ''attach'')
       then Object_assign ?config [(''__restart'', JBool False)]
       else Object_assign ?config [(''__restart'', JBool False), (''noDebug'', JBool False)])"
    using restart_fulfilled [of adapter session restartArg m] by blast
  have both: "\<forall>k. k \<noteq> ''__restart'' \<and> k \<noteq> ''noDebug'' \<longrightarrow>
      Map_get (configurations ?m' ?c) k = Map_get ?config k"
    unfolding cfg
    using mem by (auto simp: restarted_configurations_def Object_assign_absent split: if_splits)
  have one: "Map_get ?config ''request'' \<noteq> Some (JStr ''launch'') \<longrightarrow>
      (\<forall>k. k \<noteq> ''__restart'' \<longrightarrow> Map_get (configurations ?m' ?c) k = Map_get ?config k)"
    unfolding cfg
    using mem by (auto simp: restarted_configurations_def Object_assign_absent split: if_splits)
  note cases = restart_cases [of adapter session m restartArg]
  show ?thesis
    by (rule conjI [OF cases [THEN conjunct1] conjI [OF cases [THEN conjunct2]
          conjI [OF sid conjI [OF same conjI [OF member conjI [OF fulfilled
          conjI [OF both one]]]]]]])
qed

lemma launch_pending_session:
  "sessionId (sessionHeap launch_pending 0) = ''s1''"
  "configuration (sessionHeap launch_pending 0) = 0"
  "configurations launch_pending 0 = run_configuration"
  by code_simp+

lemma launch_pending_restarted:
  "fst (restart always_succeeds 0 (JBool True) launch_pending) = Inr ()"
  by code_simp

lemma attached_session:
  "configuration (sessionHeap attached 0) = 0"
  "configurations attached 0 = attach_configuration @ [(''__restart'', JBool False)]"
  by code_simp+

theorem restart_frame_witness:
  "fst (restart always_fails 0 (JBool True) launch_pending) = Inl (RequestFailed (Failure None))
 \<and> restart always_succeeds 0 (JBool True) launch_pending =
     launchOrAttach always_succeeds 0
       (emit (Request 0 ''disconnect'' [(''restart'', JBool True)]) launch_pending)
 \<and> sessionId (sessionHeap (snd (restart always_succeeds 0 (JBool True) launch_pending)) 0) = ''s1''
 \<and> configuration (sessionHeap (snd (restart always_succeeds 0 (JBool True) launch_pending)) 0) = 0
 \<and> configurations (snd (restart always_succeeds 0 (JBool True) launch_pending)) 0 =
     [(''type'', JStr ''node''), (''request'', JStr ''launch''), (''noDebug'', JBool False),
      (''__restart'', JBool False)]
 \<and> Map_get (configurations (snd (restart always_succeeds 0 (JBool True) launch_pending)) 0)
       ''type'' = Some (JStr ''node'')
 \<and> Map_get (configurations (snd (restart always_succeeds 0 (JBool True) attached)) 0)
       ''port'' = Some (JNum 9229)"
proof -
  let ?request = "Request 0 ''disconnect'' [(''restart'', JBool True)]"
  let ?after = "snd (restart always_succeeds 0 (JBool True) launch_pending)"
  have no: "always_fails (trace (emit ?request launch_pending)) = Inl (Failure None)"
    by (simp add: always_fails_def)
  have yes: "always_succeeds (trace (emit ?request launch_pending)) = Inr None"
    by (simp add: always_succeeds_def)
  have keys: "''type'' \<noteq> ''__restart'' \<and> ''type'' \<noteq> ''noDebug''" "''port'' \<noteq> ''__restart''"
    by simp_all
  have kind: "Map_get (configurations attached (configuration (sessionHeap attached 0)))
      ''request'' \<noteq> Some (JStr ''launch'')"
    by (simp add: attached_session attach_configuration_def)
  from restart_frame [of always_fails 0 launch_pending "JBool True"]
  have "\<forall>f. always_fails (trace (emit ?request launch_pending)) = Inl f \<longrightarrow>
       restart always_fails 0 (JBool True) launch_pending =
         (Inl (RequestFailed f), emit ?request launch_pending)"
    by (elim conjE) assumption
  from this [rule_format, OF no]
  have a: "fst (restart always_fails 0 (JBool True) launch_pending) =
      Inl (RequestFailed (Failure None))"
    by simp
  note ok = restart_frame [of always_succeeds 0 launch_pending "JBool True"]
  from ok
  have "\<forall>b. always_succeeds (trace (emit ?request launch_pending)) = Inr b \<longrightarrow>
       restart always_succeeds 0 (JBool True) launch_pending =
         launchOrAttach always_succeeds 0 (emit ?request launch_pending)"
    by (elim conjE) assumption
  from this [rule_format, OF yes]
  have b: "restart always_succeeds 0 (JBool True) launch_pending =
     launchOrAttach always_succeeds 0 (emit ?request launch_pending)" .
  from ok
  have "sessionId (sessionHeap ?after 0) = sessionId (sessionHeap launch_pending 0)"
    by (elim conjE) assumption
  then have c: "sessionId (sessionHeap ?after 0) = ''s1''"
    by (simp only: launch_pending_session)
  from ok
  have "configuration (sessionHeap ?after 0) = configuration (sessionHeap launch_pending 0)"
    by (elim conjE) assumption
  then have d: "configuration (sessionHeap ?after 0) = 0"
    by (simp only: launch_pending_session)
  from ok
  have "fst (restart always_succeeds 0 (JBool True) launch_pending) = Inr () \<longrightarrow>
      configurations ?after (configuration (sessionHeap launch_pending 0)) =
      (if Map_get (configurations launch_pending (configuration (sessionHeap launch_pending 0)))
            ''request'' = Some (JStr ''attach'')
       then Object_assign
              (configurations launch_pending (configuration (sessionHeap launch_pending 0)))
              [(''__restart'', JBool False)]
       else Object_assign
              (configurations launch_pending (configuration (sessionHeap launch_pending 0)))
              [(''__restart'', JBool False), (''noDebug'', JBool False)])"
    by (elim conjE) assumption
  from this [rule_format, OF launch_pending_restarted]
  have e: "configurations ?after 0 =
     [(''type'', JStr ''node''), (''request'', JStr ''launch''), (''noDebug'', JBool False),
      (''__restart'', JBool False)]"
    by (simp add: launch_pending_session run_configuration_def Object_assign_def)
  from ok
  have "\<forall>k. k \<noteq> ''__restart'' \<and> k \<noteq> ''noDebug'' \<longrightarrow>
       Map_get (configurations ?after (configuration (sessionHeap launch_pending 0))) k =
       Map_get (configurations launch_pending (configuration (sessionHeap launch_pending 0))) k"
    by (elim conjE) assumption
  from this [rule_format, OF keys(1)]
  have f: "Map_get (configurations ?after 0) ''type'' = Some (JStr ''node'')"
    by (simp add: launch_pending_session run_configuration_def)
  from restart_frame [of always_succeeds 0 attached "JBool True"]
  have "Map_get (configurations attached (configuration (sessionHeap attached 0))) ''request'' \<noteq>
        Some (JStr ''launch'') \<longrightarrow>
      (\<forall>k. k \<noteq> ''__restart'' \<longrightarrow>
       Map_get (configurations (snd (restart always_succeeds 0 (JBool True) attached))
                  (configuration (sessionHeap attached 0))) k =
       Map_get (configurations attached (configuration (sessionHeap attached 0))) k)"
    by (elim conjE) assumption
  from this [rule_format, OF kind keys(2)]
  have g: "Map_get (configurations (snd (restart always_succeeds 0 (JBool True) attached)) 0)
       ''port'' = Some (JNum 9229)"
    by (simp add: attached_session attach_configuration_def)
  show ?thesis
    by (rule conjI [OF a conjI [OF b conjI [OF c conjI [OF d conjI [OF e conjI [OF f g]]]]]])
qed

text \<open>
  Claim C9 as stated fails where it says that the configuration is unchanged except for
  the restart marker: restarting a session whose launch configuration has \<^verbatim>\<open>noDebug\<close>
  true sets \<^verbatim>\<open>noDebug\<close> to false. It also fails where it says that \<^verbatim>\<open>launchOrAttach\<close>
  is run again in all cases: when the \<^verbatim>\<open>disconnect\<close> request fails, that request is
  all that is sent.
\<close>

theorem restart_launch_overwrites_noDebug:
  "Map_get (configurations launch_pending (configuration (sessionHeap launch_pending 0)))
     ''request'' = Some (JStr ''launch'')
 \<and> Map_get (configurations launch_pending (configuration (sessionHeap launch_pending 0)))
     ''noDebug'' = Some (JBool True)
 \<and> Map_get (configurations (snd (restart always_succeeds 0 (JBool True) launch_pending))
      (configuration (sessionHeap (snd (restart always_succeeds 0 (JBool True) launch_pending)) 0)))
     ''noDebug'' = Some (JBool False)
 \<and> ''noDebug'' \<noteq> ''__restart''
 \<and> trace (snd (restart always_fails 0 (JBool True) launch_pending)) =
     trace launch_pending @ [Request 0 ''disconnect'' [(''restart'', JBool True)]]"
  by code_simp

text \<open>
  The configuration object is shared, not copied: of two sessions created with the same
  object, restarting the first changes the configuration the second one reads.
\<close>

lemma restart_shared_configuration_object:
  "configuration (sessionHeap sharing 1) = configuration (sessionHeap sharing 0)
 \<and> configurations sharing (configuration (sessionHeap sharing 1)) = run_configuration
 \<and> configurations (snd (restart always_succeeds 0 (JBool True) sharing))
      (configuration (sessionHeap (snd (restart always_succeeds 0 (JBool True) sharing)) 1)) =
     [(''type'', JStr ''node''), (''request'', JStr ''launch''), (''noDebug'', JBool False),
      (''__restart'', JBool False)]"
  by code_simp

end
